theory Spec2Isabelle
  imports Complex_Main "HOL-Library.Char_ord" "HOL-Library.List_Lexorder"
    "HOL-Library.Product_Lexorder"
begin

text \<open>
  A shallow embedding of the booking controller of the portrait-studio backend: the
  handlers \<open>createBooking\<close>, \<open>getBookings\<close>, \<open>getBookingById\<close>, \<open>updateBooking\<close>,
  \<open>deleteBooking\<close> and \<open>allocateStudioNumber\<close> as functions of an explicit store, and the
  properties of the studio-number allocation, of the listing and of the stored fields.
\<close>

section \<open>JavaScript values used by the booking controller\<close>

text \<open>
  Strings are lists of code units. A nullable column or an optional query parameter is a
  \<open>string option\<close> (\<open>None\<close> for null or undefined). A JavaScript string is truthy exactly
  when it is not empty.
\<close>

definition truthy :: "string option \<Rightarrow> bool" where
  "truthy v = (case v of None \<Rightarrow> False | Some s \<Rightarrow> s \<noteq> [])"

text \<open>\<open>a || b\<close> on nullable strings, and \<open>a || null\<close>.\<close>

definition js_or :: "string option \<Rightarrow> string option \<Rightarrow> string option" where
  "js_or a b = (if truthy a then a else b)"

definition or_null :: "string option \<Rightarrow> string option" where
  "or_null a = js_or a None"

text \<open>
  A field of a JSON request body: absent (\<open>undefined\<close>), \<open>null\<close>, or a string.
\<close>

datatype jsfield = Undefined | Null | Str string

definition field_value :: "jsfield \<Rightarrow> string option" where
  "field_value f = (case f of Str s \<Rightarrow> Some s | _ \<Rightarrow> None)"

definition field_truthy :: "jsfield \<Rightarrow> bool" where
  "field_truthy f = truthy (field_value f)"

text \<open>\<open>s.replace(/\D/g, '')\<close>: keep the ASCII digits.\<close>

definition is_digit :: "char \<Rightarrow> bool" where
  "is_digit c = (CHR ''0'' \<le> c \<and> c \<le> CHR ''9'')"

definition strip_non_digits :: "string \<Rightarrow> string" where
  "strip_non_digits s = filter is_digit s"

text \<open>
  \<open>s.toUpperCase()\<close> on the ASCII letters; every other code unit is kept. The values
  upper-cased by the controller (status, payment method) are ASCII words.
\<close>

definition upper_char :: "char \<Rightarrow> char" where
  "upper_char c = (if CHR ''a'' \<le> c \<and> c \<le> CHR ''z''
                   then char_of (of_char c - (32::nat)) else c)"

definition toUpperCase :: "string \<Rightarrow> string" where
  "toUpperCase s = map upper_char s"

text \<open>\<open>s.trim()\<close>: white space of the 8-bit range is removed at both ends.\<close>

definition is_space :: "char \<Rightarrow> bool" where
  "is_space c = (of_char c \<in> {9, 10, 11, 12, 13, 32, 160 :: nat})"

definition trim :: "string \<Rightarrow> string" where
  "trim s = rev (dropWhile is_space (rev (dropWhile is_space s)))"

text \<open>
  \<open>a.localeCompare(b)\<close> is the collation of the host, not an order by code units. The
  handlers take it as a parameter: a function from two strings to a negative number, zero
  or a positive number.
\<close>

type_synonym collation = "string \<Rightarrow> string \<Rightarrow> int"

text \<open>
  A number as \<open>parseInt\<close> returns it and as the arithmetic of the handler produces it:
  NaN, an infinity (\<open>parseInt\<close> of a digit string beyond the range of a double), or an
  integer. The sum and the product of two integers are exact here; in the handler they are
  exact while the values stay among the safe integers, up to \<open>2^53 - 1\<close>.
\<close>

datatype jsnum = NaN | Infinity | NegInfinity | Num int

text \<open>\<open>a || d\<close> on numbers: NaN and 0 are falsy.\<close>

definition num_or :: "jsnum \<Rightarrow> jsnum \<Rightarrow> jsnum" where
  "num_or a d = (case a of NaN \<Rightarrow> d | Num n \<Rightarrow> if n = 0 then d else Num n | _ \<Rightarrow> a)"

fun js_neg :: "jsnum \<Rightarrow> jsnum" where
  "js_neg NaN = NaN"
| "js_neg Infinity = NegInfinity"
| "js_neg NegInfinity = Infinity"
| "js_neg (Num a) = Num (- a)"

fun js_add :: "jsnum \<Rightarrow> jsnum \<Rightarrow> jsnum" where
  "js_add (Num a) (Num b) = Num (a + b)"
| "js_add NaN y = NaN"
| "js_add x NaN = NaN"
| "js_add Infinity NegInfinity = NaN"
| "js_add NegInfinity Infinity = NaN"
| "js_add Infinity y = Infinity"
| "js_add x Infinity = Infinity"
| "js_add NegInfinity y = NegInfinity"
| "js_add x NegInfinity = NegInfinity"

definition js_sub :: "jsnum \<Rightarrow> jsnum \<Rightarrow> jsnum" where
  "js_sub x y = js_add x (js_neg y)"

text \<open>The sign of a number that is not NaN, and the infinity of a sign.\<close>

fun js_sign :: "jsnum \<Rightarrow> int" where
  "js_sign NaN = 0"
| "js_sign Infinity = 1"
| "js_sign NegInfinity = - 1"
| "js_sign (Num a) = sgn a"

definition signed_infinity :: "int \<Rightarrow> jsnum" where
  "signed_infinity s = (if s = 0 then NaN else if 0 < s then Infinity else NegInfinity)"

fun js_mul :: "jsnum \<Rightarrow> jsnum \<Rightarrow> jsnum" where
  "js_mul (Num a) (Num b) = Num (a * b)"
| "js_mul NaN y = NaN"
| "js_mul x NaN = NaN"
| "js_mul x y = signed_infinity (js_sign x * js_sign y)"

text \<open>Decimal rendering of a number inside a template literal.\<close>

definition digit_char :: "nat \<Rightarrow> char" where
  "digit_char d = char_of (48 + d)"

function string_of_nat :: "nat \<Rightarrow> string" where
  "string_of_nat n =
     (if n < 10 then [digit_char n] else string_of_nat (n div 10) @ [digit_char (n mod 10)])"
  by pat_completeness auto
termination
  by (relation "measure (\<lambda>n. n)") auto

declare string_of_nat.simps [simp del]

definition string_of_int :: "int \<Rightarrow> string" where
  "string_of_int i =
     (if i < 0 then CHR ''-'' # string_of_nat (nat (- i)) else string_of_nat (nat i))"

section \<open>Data model\<close>

text \<open>
  The rows of the three tables the controller reads and writes. The timestamps and the
  consent-form columns of a booking are not read or written by the operations below and are
  left out.
\<close>

record booking =
  booking_id :: string
  customerName :: string
  phoneNumber :: string
  emergencyPhoneNumber :: "string option"
  photoshootType :: string
  sessionDate :: "string option"
  sessionTime :: "string option"
  specialRequestDate :: "string option"
  specialRequestTime :: "string option"
  paymentMethod :: string
  status :: string
  booking_notes :: "string option"
  studioNotes :: "string option"
  cancellationReason :: "string option"
  locationId :: "string option"
  salesPersonId :: string
  studioNumber :: "int option"
  collectionDate :: "string option"
  collectionTime :: "string option"

record location =
  location_id :: string
  location_name :: string
  location_code :: "string option"

record user_row =
  user_id :: string
  user_name :: string
  user_email :: "string option"

text \<open>The store: each table in the order in which the database returns its rows.\<close>

record store =
  bookings :: "booking list"
  locations :: "location list"
  users :: "user_row list"

text \<open>\<open>req.user\<close> as the authentication middleware attaches it.\<close>

record req_user =
  req_user_id :: string
  req_user_role :: "string option"

text \<open>\<open>successResponse(res, data, message, status)\<close> and \<open>errorResponse(res, message, status)\<close>.\<close>

datatype 'a response = successResponse 'a string nat | errorResponse string nat

text \<open>The status code of a response, and the data of a success response.\<close>

fun status_code :: "'a response \<Rightarrow> nat" where
  "status_code (successResponse d m c) = c"
| "status_code (errorResponse m c) = c"

fun response_data :: "'a response \<Rightarrow> 'a option" where
  "response_data (successResponse d m c) = Some d"
| "response_data (errorResponse m c) = None"

section \<open>Store access\<close>

definition booking_findUnique :: "store \<Rightarrow> string \<Rightarrow> booking option" where
  "booking_findUnique st i = find (\<lambda>b. booking_id b = i) (bookings st)"

definition location_findUnique :: "store \<Rightarrow> string \<Rightarrow> location option" where
  "location_findUnique st i = find (\<lambda>l. location_id l = i) (locations st)"

definition user_findUnique :: "store \<Rightarrow> string \<Rightarrow> user_row option" where
  "user_findUnique st i = find (\<lambda>u. user_id u = i) (users st)"

definition booking_update :: "store \<Rightarrow> string \<Rightarrow> (booking \<Rightarrow> booking) \<Rightarrow> store" where
  "booking_update st i f =
     st\<lparr>bookings := map (\<lambda>b. if booking_id b = i then f b else b) (bookings st)\<rparr>"

section \<open>Studio-number allocation\<close>

text \<open>
  The \<open>findMany\<close> of \<open>allocateStudioNumber\<close>: the studio numbers of the bookings of one
  location that have one, in ascending order.
\<close>

definition bookingsWithStudioNumbers :: "store \<Rightarrow> string \<Rightarrow> int list" where
  "bookingsWithStudioNumbers st loc =
     sort (List.map_filter (\<lambda>b. if locationId b = Some loc then studioNumber b else None)
             (bookings st))"

text \<open>
  The \<open>for\<close> loop over the sorted numbers: \<open>i\<close> is the index, the list is what is left
  from index \<open>i\<close> on, the last argument is \<open>nextStudioNumber\<close>.
\<close>

fun gap_loop :: "int \<Rightarrow> int list \<Rightarrow> int \<Rightarrow> int" where
  "gap_loop i [] nextStudioNumber = nextStudioNumber"
| "gap_loop i (n # rest) nextStudioNumber =
     (let expectedNumber = i + 1 in
      if n \<noteq> expectedNumber then expectedNumber
      else gap_loop (i + 1) rest (expectedNumber + 1))"

definition gap_scan :: "int list \<Rightarrow> int" where
  "gap_scan numbers = (if length numbers > 0 then gap_loop 0 numbers 1 else 1)"

text \<open>The safety re-query: another booking of the location that holds the candidate.\<close>

definition existingStudioNumber :: "store \<Rightarrow> string \<Rightarrow> int \<Rightarrow> string \<Rightarrow> booking option" where
  "existingStudioNumber st loc n i =
     find (\<lambda>b. locationId b = Some loc \<and> studioNumber b = Some n \<and> booking_id b \<noteq> i)
       (bookings st)"

text \<open>
  \<open>allStudioNumbers[allStudioNumbers.length - 1] + 1\<close>: on an empty array the read is
  \<open>undefined\<close> and the sum is NaN, which is \<open>None\<close> here.
\<close>

definition last_plus_one :: "int list \<Rightarrow> int option" where
  "last_plus_one numbers = (if numbers = [] then None else Some (last (sort numbers) + 1))"

text \<open>
  The number the allocator decides to write, with the branch it took: the candidate of the
  gap scan, whether the re-query found it taken, and the final number.
\<close>

record allocation =
  candidate :: int
  conflict :: bool
  final :: "int option"

definition allocation_of :: "store \<Rightarrow> string \<Rightarrow> string \<Rightarrow> allocation" where
  "allocation_of st loc i =
     (let numbers = bookingsWithStudioNumbers st loc;
          nextStudioNumber = gap_scan numbers;
          taken = (existingStudioNumber st loc nextStudioNumber i \<noteq> None)
      in \<lparr>candidate = nextStudioNumber, conflict = taken,
          final = (if taken then last_plus_one numbers else Some nextStudioNumber)\<rparr>)"

definition studioNumberDisplay :: "location \<Rightarrow> int \<Rightarrow> string" where
  "studioNumberDisplay l n =
     (if truthy (location_code l)
      then the (location_code l) @ ''-'' @ string_of_int n else string_of_int n)"

text \<open>
  \<open>allocateStudioNumber\<close>, parameterised by the \<open>data\<close> of its single
  \<open>prisma.booking.update\<close>. A NaN number is refused by the store and the handler answers 500.
\<close>

definition allocate_with ::
  "(int \<Rightarrow> booking \<Rightarrow> booking) \<Rightarrow> store \<Rightarrow> string \<Rightarrow> (booking \<times> location) response \<times> store"
where
  "allocate_with write st i =
     (case booking_findUnique st i of
        None \<Rightarrow> (errorResponse ''Booking not found'' 404, st)
      | Some existingBooking \<Rightarrow>
          if \<not> truthy (locationId existingBooking) then
            (errorResponse
               ''Booking must have a location assigned before allocating studio number'' 400, st)
          else if studioNumber existingBooking \<noteq> None then
            (errorResponse ''Studio number already allocated to this booking'' 400, st)
          else
            (case location_findUnique st (the (locationId existingBooking)) of
               None \<Rightarrow> (errorResponse ''Location not found for this booking'' 404, st)
             | Some l \<Rightarrow>
                 (case final (allocation_of st (the (locationId existingBooking)) i) of
                    None \<Rightarrow> (errorResponse ''Internal server error'' 500, st)
                  | Some nextStudioNumber \<Rightarrow>
                      (let st' = booking_update st i (write nextStudioNumber) in
                       (successResponse
                          (write nextStudioNumber existingBooking, l)
                          (''Studio number '' @ studioNumberDisplay l nextStudioNumber
                             @ '' allocated successfully'')
                          200,
                        st')))))"

text \<open>The handler of the controller whose list endpoint paginates: the update writes
  \<open>studioNumber\<close> and \<open>status: 'CONFIRMED'\<close>.\<close>

definition allocateStudioNumber ::
  "store \<Rightarrow> string \<Rightarrow> (booking \<times> location) response \<times> store" where
  "allocateStudioNumber =
     allocate_with (\<lambda>n b. b\<lparr>studioNumber := Some n, status := ''CONFIRMED''\<rparr>)"

text \<open>The handler of \<open>src/controllers/booking.controller.js\<close>: the update writes
  \<open>studioNumber\<close> only.\<close>

definition allocateStudioNumber_controller ::
  "store \<Rightarrow> string \<Rightarrow> (booking \<times> location) response \<times> store" where
  "allocateStudioNumber_controller = allocate_with (\<lambda>n b. b\<lparr>studioNumber := Some n\<rparr>)"

section \<open>Listing bookings\<close>

text \<open>
  The query string of \<open>GET /bookings\<close>. \<open>q_page\<close> and \<open>q_limit\<close> are the results of
  \<open>parseInt(page)\<close> and \<open>parseInt(limit)\<close>; an absent parameter gives NaN.
\<close>

record list_query =
  q_locationId :: "string option"
  q_status :: "string option"
  q_salesPersonId :: "string option"
  q_includeAllSalesPersons :: "string option"
  q_page :: jsnum
  q_limit :: jsnum
  q_hasCollectionDate :: "string option"

definition pageNumber :: "list_query \<Rightarrow> jsnum" where
  "pageNumber q = num_or (q_page q) (Num 1)"

definition pageSize :: "list_query \<Rightarrow> jsnum" where
  "pageSize q = num_or (q_limit q) (Num 20)"

definition skip :: "list_query \<Rightarrow> jsnum" where
  "skip q = js_mul (js_sub (pageNumber q) (Num 1)) (pageSize q)"

text \<open>The \<open>where\<close> object: an absent key does not filter.\<close>

record where_clause =
  where_salesPersonId :: "string option"
  where_locationId :: "string option"
  where_status :: "string option"
  where_collection :: bool

definition shouldIncludeAllSalesPersons :: "list_query \<Rightarrow> bool" where
  "shouldIncludeAllSalesPersons q =
     (q_includeAllSalesPersons q = Some ''true'' \<and> truthy (q_locationId q))"

definition build_where :: "req_user \<Rightarrow> list_query \<Rightarrow> where_clause" where
  "build_where user q =
     (let w0 = \<lparr>where_salesPersonId = None, where_locationId = None, where_status = None,
                where_collection = False\<rparr>;
          w1 = (if req_user_role user = Some ''ADMIN'' then
                  (if truthy (q_salesPersonId q)
                   then w0\<lparr>where_salesPersonId := q_salesPersonId q\<rparr> else w0)
                else if req_user_role user = Some ''SALES_PERSON'' then
                  (if \<not> shouldIncludeAllSalesPersons q
                   then w0\<lparr>where_salesPersonId := Some (req_user_id user)\<rparr> else w0)
                else w0);
          w2 = (if truthy (q_locationId q)
                then w1\<lparr>where_locationId := q_locationId q\<rparr> else w1);
          w3 = (if truthy (q_status q)
                then w2\<lparr>where_status := map_option toUpperCase (q_status q)\<rparr> else w2);
          w4 = (if q_hasCollectionDate q = Some ''true''
                then w3\<lparr>where_collection := True\<rparr> else w3)
      in w4)"

definition matches :: "where_clause \<Rightarrow> booking \<Rightarrow> bool" where
  "matches w b =
     ((case where_salesPersonId w of None \<Rightarrow> True | Some s \<Rightarrow> salesPersonId b = s) \<and>
      (case where_locationId w of None \<Rightarrow> True | Some l \<Rightarrow> locationId b = Some l) \<and>
      (case where_status w of None \<Rightarrow> True | Some s \<Rightarrow> status b = s) \<and>
      (if where_collection w then collectionDate b \<noteq> None \<and> collectionTime b \<noteq> None
       else True))"

definition booking_findMany :: "store \<Rightarrow> where_clause \<Rightarrow> booking list" where
  "booking_findMany st w = filter (matches w) (bookings st)"

definition booking_count :: "store \<Rightarrow> where_clause \<Rightarrow> nat" where
  "booking_count st w = length (filter (matches w) (bookings st))"

text \<open>The \<open>reduce\<close> that counts the rows of each status.\<close>

definition count_status :: "(string \<rightharpoonup> nat) \<Rightarrow> booking \<Rightarrow> (string \<rightharpoonup> nat)" where
  "count_status acc b =
     acc(status b \<mapsto> (case acc (status b) of None \<Rightarrow> 0 | Some n \<Rightarrow> n) + 1)"

definition status_counts :: "booking list \<Rightarrow> (string \<rightharpoonup> nat)" where
  "status_counts allBookings = foldl count_status Map.empty allBookings"

definition count_or_zero :: "(string \<rightharpoonup> nat) \<Rightarrow> string \<Rightarrow> nat" where
  "count_or_zero m k = (case m k of None \<Rightarrow> 0 | Some n \<Rightarrow> n)"

record summary =
  summary_total :: nat
  confirmed :: nat
  booked :: nat
  tbc :: nat
  cancelled :: nat
  noAnswer :: nat
  wlmk :: nat
  videoCall :: nat

record pagination =
  total :: nat
  page :: jsnum
  limit :: jsnum
  totalPages :: jsnum

text \<open>
  The comparator of the sort. The first argument is the collation of the host, the flag is
  \<open>hasCollectionDate === 'true'\<close>.
\<close>

definition compare_bookings :: "collation \<Rightarrow> bool \<Rightarrow> booking \<Rightarrow> booking \<Rightarrow> int" where
  "compare_bookings localeCompare byCollection a b =
     (let dateA = (if byCollection then collectionDate a
                   else js_or (specialRequestDate a) (sessionDate a));
          dateB = (if byCollection then collectionDate b
                   else js_or (specialRequestDate b) (sessionDate b));
          timeA = (if byCollection then collectionTime a
                   else js_or (specialRequestTime a) (sessionTime a));
          timeB = (if byCollection then collectionTime b
                   else js_or (specialRequestTime b) (sessionTime b))
      in if \<not> truthy dateA \<and> \<not> truthy dateB then 0
         else if \<not> truthy dateA then 1
         else if \<not> truthy dateB then - 1
         else if dateA \<noteq> dateB then localeCompare (the dateA) (the dateB)
         else if \<not> truthy timeA \<and> \<not> truthy timeB then 0
         else if \<not> truthy timeA then 1
         else if \<not> truthy timeB then - 1
         else localeCompare (the timeA) (the timeB))"

text \<open>
  \<open>Array.prototype.sort(cmp)\<close> is stable; with a comparator that is a total preorder its
  result is the stable sorting, computed here by insertion from the right.
\<close>

fun insert_by :: "('a \<Rightarrow> 'a \<Rightarrow> int) \<Rightarrow> 'a \<Rightarrow> 'a list \<Rightarrow> 'a list" where
  "insert_by cmp x [] = [x]"
| "insert_by cmp x (y # ys) =
     (if cmp x y \<le> 0 then x # y # ys else y # insert_by cmp x ys)"

definition js_sort :: "('a \<Rightarrow> 'a \<Rightarrow> int) \<Rightarrow> 'a list \<Rightarrow> 'a list" where
  "js_sort cmp xs = foldr (insert_by cmp) xs []"

text \<open>
  \<open>xs.slice(start, end)\<close>. An index is first made an integer or an infinity (NaN becomes
  0); a negative index counts from the end; the result is clamped to the array.
\<close>

definition slice_index :: "nat \<Rightarrow> jsnum \<Rightarrow> int" where
  "slice_index len v =
     (case v of
        NaN \<Rightarrow> 0
      | NegInfinity \<Rightarrow> 0
      | Infinity \<Rightarrow> int len
      | Num n \<Rightarrow> if n < 0 then max (int len + n) 0 else min n (int len))"

definition js_slice :: "'a list \<Rightarrow> jsnum \<Rightarrow> jsnum \<Rightarrow> 'a list" where
  "js_slice xs start end =
     (let k = slice_index (length xs) start;
          fin = slice_index (length xs) end
      in take (nat (fin - k)) (drop (nat k) xs))"

definition sortedBookingIds ::
  "collation \<Rightarrow> store \<Rightarrow> where_clause \<Rightarrow> bool \<Rightarrow> string list" where
  "sortedBookingIds localeCompare st w byCollection =
     map booking_id
       (js_sort (compare_bookings localeCompare byCollection) (booking_findMany st w))"

definition paginatedIds ::
  "collation \<Rightarrow> store \<Rightarrow> where_clause \<Rightarrow> bool \<Rightarrow> list_query \<Rightarrow> string list" where
  "paginatedIds localeCompare st w byCollection q =
     js_slice (sortedBookingIds localeCompare st w byCollection)
       (skip q) (js_add (skip q) (pageSize q))"

text \<open>
  The page fetch by \<open>id: { in: paginatedIds }\<close>, the \<open>Map\<close> built from its rows (a later
  entry replaces an earlier one of the same key) and the re-ordering
  \<open>paginatedIds.map(id => bookingsMap.get(id)).filter(Boolean)\<close>.
\<close>

definition bookingsMap :: "booking list \<Rightarrow> (string \<rightharpoonup> booking)" where
  "bookingsMap rows = map_of (rev (map (\<lambda>b. (booking_id b, b)) rows))"

definition sortedBookings :: "store \<Rightarrow> string list \<Rightarrow> booking list" where
  "sortedBookings st ids =
     List.map_filter
       (bookingsMap (filter (\<lambda>b. booking_id b \<in> set ids) (bookings st))) ids"

text \<open>The point lookups that attach the location and the sales person of a row.\<close>

definition enrich :: "store \<Rightarrow> booking \<Rightarrow> booking \<times> location option \<times> user_row option" where
  "enrich st b =
     (b,
      (if truthy (locationId b) then location_findUnique st (the (locationId b)) else None),
      (if salesPersonId b \<noteq> [] then user_findUnique st (salesPersonId b) else None))"

text \<open>
  \<open>Math.ceil(totalCount / pageSize)\<close>. A count divided by an infinity is 0; the handler
  never divides by 0 or NaN (\<open>pageSize\<close> is \<open>parseInt(limit) || 20\<close>).
\<close>

definition ceil_div :: "nat \<Rightarrow> jsnum \<Rightarrow> jsnum" where
  "ceil_div totalCount pgSize =
     (case pgSize of
        NaN \<Rightarrow> NaN
      | Infinity \<Rightarrow> Num 0
      | NegInfinity \<Rightarrow> Num 0
      | Num d \<Rightarrow>
          if d = 0 then (if totalCount = 0 then NaN else Infinity)
          else Num \<lceil>(of_nat totalCount :: rat) / of_int d\<rceil>)"

record list_result =
  result_bookings :: "(booking \<times> location option \<times> user_row option) list"
  result_pagination :: pagination
  result_summary :: summary

text \<open>\<open>getBookings\<close>; the first argument is the collation of the host.\<close>

definition getBookings ::
  "collation \<Rightarrow> store \<Rightarrow> req_user option \<Rightarrow> list_query \<Rightarrow> list_result response" where
  "getBookings localeCompare st user q =
     (if user = None \<or> \<not> truthy (req_user_role (the user)) then
        errorResponse ''User not authenticated'' 401
      else
        (let w = build_where (the user) q;
             totalCount = booking_count st w;
             counts = status_counts (booking_findMany st w);
             ids = paginatedIds localeCompare st w (q_hasCollectionDate q = Some ''true'') q;
             bookingsWithDetails = map (enrich st) (sortedBookings st ids)
         in successResponse
              \<lparr>result_bookings = bookingsWithDetails,
               result_pagination =
                 \<lparr>total = totalCount, page = pageNumber q, limit = pageSize q,
                  totalPages = ceil_div totalCount (pageSize q)\<rparr>,
               result_summary =
                 \<lparr>summary_total = totalCount,
                  confirmed = count_or_zero counts ''CONFIRMED'',
                  booked = count_or_zero counts ''BOOKED'',
                  tbc = count_or_zero counts ''TBC'',
                  cancelled = count_or_zero counts ''CANCELLED'',
                  noAnswer = count_or_zero counts ''NO_ANSWER'',
                  wlmk = count_or_zero counts ''WLMK'',
                  videoCall = count_or_zero counts ''VIDEO_CALL''\<rparr>\<rparr>
              ''Bookings retrieved successfully'' 200))"

section \<open>Creating, reading, updating and deleting a booking\<close>

text \<open>
  The body of \<open>POST /bookings\<close>. The validators of the route have made
  \<open>customerName\<close>, \<open>phoneNumber\<close>, \<open>photoshootType\<close> and \<open>paymentMethod\<close> strings when
  the handler reads them.
\<close>

record create_body =
  cb_customerName :: string
  cb_phoneNumber :: string
  cb_emergencyPhoneNumber :: jsfield
  cb_photoshootType :: string
  cb_sessionDate :: jsfield
  cb_sessionTime :: jsfield
  cb_specialRequestDate :: jsfield
  cb_specialRequestTime :: jsfield
  cb_paymentMethod :: string
  cb_locationId :: jsfield
  cb_status :: jsfield
  cb_notes :: jsfield

definition normalizedPaymentMethod :: "string \<Rightarrow> string" where
  "normalizedPaymentMethod method =
     (if toUpperCase method = ''NOT-PAID'' then ''NOT_PAID'' else toUpperCase method)"

definition bookingStatus :: "jsfield \<Rightarrow> string" where
  "bookingStatus st_field =
     (if field_truthy st_field \<and>
         toUpperCase (the (field_value st_field))
           \<in> set [''BOOKED'', ''CONFIRMED'', ''TBC'', ''CANCELLED'', ''NO_ANSWER'', ''WLMK'']
      then toUpperCase (the (field_value st_field)) else ''BOOKED'')"

definition both_given :: "jsfield \<Rightarrow> jsfield \<Rightarrow> bool" where
  "both_given d t =
     (field_truthy d \<and> field_truthy t \<and>
      trim (the (field_value d)) \<noteq> [] \<and> trim (the (field_value t)) \<noteq> [])"

definition hasRegularSession :: "create_body \<Rightarrow> bool" where
  "hasRegularSession body = both_given (cb_sessionDate body) (cb_sessionTime body)"

definition hasSpecialRequest :: "create_body \<Rightarrow> bool" where
  "hasSpecialRequest body =
     both_given (cb_specialRequestDate body) (cb_specialRequestTime body)"

text \<open>The slot test of the handler whose list endpoint paginates.\<close>

definition slot_missing :: "create_body \<Rightarrow> bool" where
  "slot_missing body = (\<not> hasRegularSession body \<and> \<not> hasSpecialRequest body)"

text \<open>The slot test of \<open>src/controllers/booking.controller.js\<close>:
  \<open>!sessionDate || !sessionTime\<close>.\<close>

definition slot_missing_controller :: "create_body \<Rightarrow> bool" where
  "slot_missing_controller body =
     (\<not> field_truthy (cb_sessionDate body) \<or> \<not> field_truthy (cb_sessionTime body))"

text \<open>
  \<open>createBooking\<close>, parameterised by the slot test. \<open>errors\<close> is
  \<open>validationResult(req)\<close> as a list of messages, \<open>newId\<close> the identifier the store gives
  the new row. Columns absent from the \<open>data\<close> take their default, null.
\<close>

definition createBooking_with ::
  "(create_body \<Rightarrow> bool) \<Rightarrow> string list \<Rightarrow> req_user \<Rightarrow> create_body \<Rightarrow> string \<Rightarrow> store
     \<Rightarrow> booking response \<times> store"
where
  "createBooking_with missing errors user body newId st =
     (if errors \<noteq> [] then (errorResponse (hd errors) 400, st)
      else
        (let phoneDigits = strip_non_digits (cb_phoneNumber body) in
         if length phoneDigits \<noteq> 11 then
           (errorResponse ''Phone number must be exactly 11 digits'' 400, st)
         else if field_truthy (cb_emergencyPhoneNumber body) \<and>
                 length (strip_non_digits (the (field_value (cb_emergencyPhoneNumber body))))
                   \<noteq> 11 then
           (errorResponse ''Emergency phone number must be exactly 11 digits'' 400, st)
         else if bookingStatus (cb_status body) \<noteq> ''TBC'' \<and> missing body then
           (errorResponse ''Session date and time are required for booked status'' 400, st)
         else
           (let b = \<lparr>booking_id = newId,
                     customerName = trim (cb_customerName body),
                     phoneNumber = phoneDigits,
                     emergencyPhoneNumber =
                       (if field_truthy (cb_emergencyPhoneNumber body)
                        then map_option strip_non_digits
                               (field_value (cb_emergencyPhoneNumber body))
                        else None),
                     photoshootType = cb_photoshootType body,
                     sessionDate = or_null (field_value (cb_sessionDate body)),
                     sessionTime = or_null (field_value (cb_sessionTime body)),
                     specialRequestDate = or_null (field_value (cb_specialRequestDate body)),
                     specialRequestTime = or_null (field_value (cb_specialRequestTime body)),
                     paymentMethod = normalizedPaymentMethod (cb_paymentMethod body),
                     status = bookingStatus (cb_status body),
                     booking_notes = or_null (field_value (cb_notes body)),
                     studioNotes = None,
                     cancellationReason = None,
                     locationId = or_null (field_value (cb_locationId body)),
                     salesPersonId = req_user_id user,
                     studioNumber = None,
                     collectionDate = None,
                     collectionTime = None\<rparr>
            in (successResponse b ''Booking created successfully'' 201,
                st\<lparr>bookings := bookings st @ [b]\<rparr>))))"

definition createBooking ::
  "string list \<Rightarrow> req_user \<Rightarrow> create_body \<Rightarrow> string \<Rightarrow> store \<Rightarrow> booking response \<times> store"
where
  "createBooking = createBooking_with slot_missing"

definition createBooking_controller ::
  "string list \<Rightarrow> req_user \<Rightarrow> create_body \<Rightarrow> string \<Rightarrow> store \<Rightarrow> booking response \<times> store"
where
  "createBooking_controller = createBooking_with slot_missing_controller"

text \<open>\<open>getBookingById\<close>: the row with its location and sales person.\<close>

definition privileged :: "req_user \<Rightarrow> bool" where
  "privileged user =
     (req_user_role user = Some ''ADMIN'' \<or> req_user_role user = Some ''CUSTOMER_SERVICE'' \<or>
      req_user_role user = Some ''STUDIO'' \<or> req_user_role user = Some ''SALES'')"

definition getBookingById ::
  "store \<Rightarrow> req_user option \<Rightarrow> string
     \<Rightarrow> (booking \<times> location option \<times> user_row option) response"
where
  "getBookingById st user i =
     (if user = None \<or> \<not> truthy (req_user_role (the user)) then
        errorResponse ''User not authenticated'' 401
      else
        (case booking_findUnique st i of
           None \<Rightarrow> errorResponse ''Booking not found'' 404
         | Some b \<Rightarrow>
             if \<not> privileged (the user) \<and> salesPersonId b \<noteq> req_user_id (the user) then
               errorResponse ''You do not have permission to view this booking'' 403
             else successResponse (enrich st b) ''Booking retrieved successfully'' 200))"

text \<open>The body of \<open>PUT /bookings/:id\<close>: every field may be absent.\<close>

record update_body =
  ub_customerName :: jsfield
  ub_phoneNumber :: jsfield
  ub_emergencyPhoneNumber :: jsfield
  ub_photoshootType :: jsfield
  ub_sessionDate :: jsfield
  ub_sessionTime :: jsfield
  ub_specialRequestDate :: jsfield
  ub_specialRequestTime :: jsfield
  ub_paymentMethod :: jsfield
  ub_status :: jsfield
  ub_locationId :: jsfield
  ub_notes :: jsfield
  ub_studioNotes :: jsfield
  ub_cancellationReason :: jsfield
  ub_collectionDate :: jsfield
  ub_collectionTime :: jsfield

text \<open>\<open>if (x) data.f = g(x)\<close> and \<open>if (x !== undefined) data.f = x || null\<close>.\<close>

definition set_if_truthy :: "jsfield \<Rightarrow> (string \<Rightarrow> string) \<Rightarrow> string \<Rightarrow> string" where
  "set_if_truthy f g old = (if field_truthy f then g (the (field_value f)) else old)"

definition set_if_defined :: "jsfield \<Rightarrow> string option \<Rightarrow> string option" where
  "set_if_defined f old = (if f \<noteq> Undefined then or_null (field_value f) else old)"

definition updateData :: "update_body \<Rightarrow> booking \<Rightarrow> booking" where
  "updateData body b =
     b\<lparr>customerName := set_if_truthy (ub_customerName body) trim (customerName b),
       phoneNumber := set_if_truthy (ub_phoneNumber body) strip_non_digits (phoneNumber b),
       emergencyPhoneNumber :=
         (if ub_emergencyPhoneNumber body \<noteq> Undefined then
            (if field_truthy (ub_emergencyPhoneNumber body)
             then map_option strip_non_digits (field_value (ub_emergencyPhoneNumber body))
             else None)
          else emergencyPhoneNumber b),
       photoshootType := set_if_truthy (ub_photoshootType body) (\<lambda>s. s) (photoshootType b),
       sessionDate := set_if_defined (ub_sessionDate body) (sessionDate b),
       sessionTime := set_if_defined (ub_sessionTime body) (sessionTime b),
       specialRequestDate := set_if_defined (ub_specialRequestDate body) (specialRequestDate b),
       specialRequestTime := set_if_defined (ub_specialRequestTime body) (specialRequestTime b),
       paymentMethod :=
         set_if_truthy (ub_paymentMethod body) normalizedPaymentMethod (paymentMethod b),
       status := set_if_truthy (ub_status body) toUpperCase (status b),
       booking_notes := set_if_defined (ub_notes body) (booking_notes b),
       studioNotes := set_if_defined (ub_studioNotes body) (studioNotes b),
       cancellationReason := set_if_defined (ub_cancellationReason body) (cancellationReason b),
       locationId := set_if_defined (ub_locationId body) (locationId b),
       collectionDate := set_if_defined (ub_collectionDate body) (collectionDate b),
       collectionTime := set_if_defined (ub_collectionTime body) (collectionTime b)\<rparr>"

text \<open>The enrichment of the update response selects \<open>id\<close> and \<open>name\<close> of the location only.\<close>

definition enrich_updated ::
  "store \<Rightarrow> booking \<Rightarrow> booking \<times> location option \<times> user_row option" where
  "enrich_updated st b =
     (b,
      (if truthy (locationId b)
       then map_option (\<lambda>l. l\<lparr>location_code := None\<rparr>)
              (location_findUnique st (the (locationId b)))
       else None),
      (if salesPersonId b \<noteq> [] then user_findUnique st (salesPersonId b) else None))"

definition updateBooking ::
  "string list \<Rightarrow> req_user \<Rightarrow> string \<Rightarrow> update_body \<Rightarrow> store
     \<Rightarrow> (booking \<times> location option \<times> user_row option) response \<times> store"
where
  "updateBooking errors user i body st =
     (if errors \<noteq> [] then (errorResponse (hd errors) 400, st)
      else
        (case booking_findUnique st i of
           None \<Rightarrow> (errorResponse ''Booking not found'' 404, st)
         | Some existingBooking \<Rightarrow>
             if \<not> privileged user \<and> salesPersonId existingBooking \<noteq> req_user_id user then
               (errorResponse ''You do not have permission to update this booking'' 403, st)
             else if field_truthy (ub_phoneNumber body) \<and>
                     length (strip_non_digits (the (field_value (ub_phoneNumber body))))
                       \<noteq> 11 then
               (errorResponse ''Phone number must be exactly 11 digits'' 400, st)
             else if field_truthy (ub_emergencyPhoneNumber body) \<and>
                     length (strip_non_digits
                               (the (field_value (ub_emergencyPhoneNumber body)))) \<noteq> 11 then
               (errorResponse ''Emergency phone number must be exactly 11 digits'' 400, st)
             else
               (let st' = booking_update st i (updateData body);
                    updatedBooking = updateData body existingBooking
                in (successResponse (enrich_updated st' updatedBooking)
                      ''Booking updated successfully'' 200,
                    st'))))"

definition deleteBooking :: "req_user \<Rightarrow> string \<Rightarrow> store \<Rightarrow> unit response \<times> store" where
  "deleteBooking user i st =
     (case booking_findUnique st i of
        None \<Rightarrow> (errorResponse ''Booking not found'' 404, st)
      | Some existingBooking \<Rightarrow>
          if \<not> privileged user \<and> salesPersonId existingBooking \<noteq> req_user_id user then
            (errorResponse ''You do not have permission to delete this booking'' 403, st)
          else
            (successResponse () ''Booking deleted successfully'' 200,
             st\<lparr>bookings := filter (\<lambda>b. booking_id b \<noteq> i) (bookings st)\<rparr>))"

section \<open>Reference definitions\<close>

text \<open>
  Modelled from the spec: the schema of the store is not among the sources. The data model
  of the spec makes the identifier of a booking unique and a studio number a positive
  integer, unique within its location; the handler of the allocation answers a
  unique-constraint error of the store (\<open>P2002\<close>) with 409.
\<close>

definition unique_ids :: "store \<Rightarrow> bool" where
  "unique_ids st = distinct (map booking_id (bookings st))"

definition numbers_distinct :: "store \<Rightarrow> string \<Rightarrow> bool" where
  "numbers_distinct st loc = distinct (bookingsWithStudioNumbers st loc)"

definition numbers_positive :: "store \<Rightarrow> string \<Rightarrow> bool" where
  "numbers_positive st loc = list_all (\<lambda>n. 0 < n) (bookingsWithStudioNumbers st loc)"

text \<open>
  The allocation rule in the words of the spec: the first 1-indexed position of the sorted
  numbers whose value differs from the position, or the count plus one.
\<close>

definition first_gap_spec :: "int list \<Rightarrow> int" where
  "first_gap_spec xs =
     (case find (\<lambda>k. xs ! k \<noteq> int k + 1) [0..<length xs] of
        Some k \<Rightarrow> int k + 1
      | None \<Rightarrow> int (length xs) + 1)"

text \<open>The slice \<open>[lo, hi)\<close> of a sequence: its elements at the indices from \<open>lo\<close> up to,
  not including, \<open>hi\<close>.\<close>

definition slice_spec :: "'a list \<Rightarrow> int \<Rightarrow> int \<Rightarrow> 'a list" where
  "slice_spec xs lo hi = map (\<lambda>k. xs ! k) (filter (\<lambda>k. lo \<le> int k \<and> int k < hi) [0..<length xs])"

text \<open>
  The effective sort key in the words of the spec, with \<open>??\<close> the null-coalescing choice,
  and the order on keys: a null date after every date, dates and then times by the order of
  strings, a null time after every time.
\<close>

definition coalesce :: "string option \<Rightarrow> string option \<Rightarrow> string option" where
  "coalesce a b = (case a of None \<Rightarrow> b | Some s \<Rightarrow> Some s)"

definition effective_date :: "bool \<Rightarrow> booking \<Rightarrow> string option" where
  "effective_date byCollection b =
     (if byCollection then collectionDate b else coalesce (specialRequestDate b) (sessionDate b))"

definition effective_time :: "bool \<Rightarrow> booking \<Rightarrow> string option" where
  "effective_time byCollection b =
     (if byCollection then collectionTime b else coalesce (specialRequestTime b) (sessionTime b))"

definition nulls_last_le :: "string option \<Rightarrow> string option \<Rightarrow> bool" where
  "nulls_last_le a b =
     (case b of None \<Rightarrow> True | Some y \<Rightarrow> (case a of None \<Rightarrow> False | Some x \<Rightarrow> x \<le> y))"

definition key_le :: "bool \<Rightarrow> booking \<Rightarrow> booking \<Rightarrow> bool" where
  "key_le byCollection a b =
     (if effective_date byCollection a = None \<or> effective_date byCollection b = None
      then effective_date byCollection b = None
      else if effective_date byCollection a = effective_date byCollection b
      then nulls_last_le (effective_time byCollection a) (effective_time byCollection b)
      else the (effective_date byCollection a) < the (effective_date byCollection b))"

text \<open>\<open>Number.MAX_SAFE_INTEGER\<close>: up to it the doubles of the handler are the integers.\<close>

definition max_safe_integer :: int where
  "max_safe_integer = 2 ^ 53 - 1"

text \<open>
  The formats of the validators of the routes, \<open>/^\d{4}-\d{2}-\d{2}$/\<close> and
  \<open>/^\d{2}:\d{2}$/\<close>: in a pattern \<open>d\<close> stands for a digit and every other character for
  itself. A nullable column is formatted when it is null or fits the pattern; the columns a
  listing compares are the collection columns when the flag is set and the special-request
  and session columns otherwise.
\<close>

fun fits :: "string \<Rightarrow> string \<Rightarrow> bool" where
  "fits [] [] = True"
| "fits (p # ps) (c # cs) = ((if p = CHR ''d'' then is_digit c else c = p) \<and> fits ps cs)"
| "fits [] (c # cs) = False"
| "fits (p # ps) [] = False"

definition date_format :: string where
  "date_format = ''dddd-dd-dd''"

definition time_format :: string where
  "time_format = ''dd:dd''"

definition formatted :: "string \<Rightarrow> string option \<Rightarrow> bool" where
  "formatted pat v = (case v of None \<Rightarrow> True | Some s \<Rightarrow> fits pat s)"

definition compared_columns_formatted :: "bool \<Rightarrow> booking \<Rightarrow> bool" where
  "compared_columns_formatted byCollection b =
     (if byCollection
      then formatted date_format (collectionDate b) \<and> formatted time_format (collectionTime b)
      else formatted date_format (specialRequestDate b) \<and>
           formatted date_format (sessionDate b) \<and>
           formatted time_format (specialRequestTime b) \<and>
           formatted time_format (sessionTime b))"

text \<open>
  Modelled from the spec: the collation of the host is not among the sources. The spec
  takes date strings and time strings to compare as strings do because they are zero-padded
  \<open>YYYY-MM-DD\<close> and \<open>HH:MM\<close>: on two strings of one such format the collation orders as
  the code units do.
\<close>

definition collates_format :: "collation \<Rightarrow> string \<Rightarrow> bool" where
  "collates_format localeCompare pat =
     (\<forall>a b. fits pat a \<and> fits pat b \<longrightarrow> (localeCompare a b \<le> 0 \<longleftrightarrow> a \<le> b))"

text \<open>
  A collation of the kind the host has: letters are compared without regard to case first,
  and on a tie the string with the lower-case letter comes first, so that
  \<open>'10:30 AM'.localeCompare('10:30 am')\<close> is 1.
\<close>

definition case_collation :: collation where
  "case_collation a b =
     (if toUpperCase a < toUpperCase b then - 1
      else if toUpperCase b < toUpperCase a then 1
      else if a = b then 0
      else if b < a then - 1 else 1)"

text \<open>
  The rank of a row under the comparator: rows without a date last, then by date, rows
  without a time last among the rows of a date, then by time. Tuples are ordered
  lexicographically.
\<close>

definition sort_rank :: "bool \<Rightarrow> booking \<Rightarrow> bool \<times> string \<times> bool \<times> string" where
  "sort_rank byCollection b =
     (let d = (if byCollection then collectionDate b
               else js_or (specialRequestDate b) (sessionDate b));
          t = (if byCollection then collectionTime b
               else js_or (specialRequestTime b) (sessionTime b))
      in if \<not> truthy d then (True, [], False, [])
         else if \<not> truthy t then (False, the d, True, [])
         else (False, the d, False, the t))"

text \<open>No date or time column holds the empty string: every writer stores \<open>x || null\<close>.\<close>

definition slots_normal :: "booking \<Rightarrow> bool" where
  "slots_normal b =
     (sessionDate b \<noteq> Some [] \<and> sessionTime b \<noteq> Some [] \<and>
      specialRequestDate b \<noteq> Some [] \<and> specialRequestTime b \<noteq> Some [] \<and>
      collectionDate b \<noteq> Some [] \<and> collectionTime b \<noteq> Some [])"

text \<open>The slot rule of the data model, and a create request that breaks it.\<close>

definition slot_invariant :: "booking \<Rightarrow> bool" where
  "slot_invariant b =
     (status b = ''TBC'' \<or>
      (truthy (sessionDate b) \<and> truthy (sessionTime b)) \<or>
      (truthy (specialRequestDate b) \<and> truthy (specialRequestTime b)))"

definition request_breaks_slot_rule :: "create_body \<Rightarrow> bool" where
  "request_breaks_slot_rule body =
     (bookingStatus (cb_status body) \<noteq> ''TBC'' \<and>
      \<not> (field_truthy (cb_sessionDate body) \<and> field_truthy (cb_sessionTime body)) \<and>
      \<not> (field_truthy (cb_specialRequestDate body) \<and>
         field_truthy (cb_specialRequestTime body)))"

text \<open>A phone number as the data model wants it stored: exactly 11 digits.\<close>

definition eleven_digits :: "string \<Rightarrow> bool" where
  "eleven_digits s = (length s = 11 \<and> list_all is_digit s)"

section \<open>Example data\<close>

text \<open>The stores, callers and requests at which the properties below are evaluated.\<close>

definition blank_booking :: booking where
  "blank_booking =
     \<lparr>booking_id = ''b0'', customerName = ''Ann'', phoneNumber = ''07123456789'',
      emergencyPhoneNumber = None, photoshootType = ''family'',
      sessionDate = None, sessionTime = None,
      specialRequestDate = None, specialRequestTime = None,
      paymentMethod = ''CASH'', status = ''BOOKED'', booking_notes = None,
      studioNotes = None, cancellationReason = None, locationId = None,
      salesPersonId = ''u1'', studioNumber = None,
      collectionDate = None, collectionTime = None\<rparr>"

definition numbered :: "string \<Rightarrow> string \<Rightarrow> int option \<Rightarrow> booking" where
  "numbered i loc n = blank_booking\<lparr>booking_id := i, locationId := Some loc, studioNumber := n\<rparr>"

definition mall :: location where
  "mall = \<lparr>location_id = ''L1'', location_name = ''Mall of Multan'', location_code = Some ''MOM''\<rparr>"

definition store_124 :: store where
  "store_124 =
     \<lparr>bookings = [numbered ''b4'' ''L1'' (Some 4), numbered ''b1'' ''L1'' (Some 1),
                  numbered ''bx'' ''L1'' None, numbered ''b2'' ''L1'' (Some 2)],
      locations = [mall], users = []\<rparr>"

definition store_123 :: store where
  "store_123 =
     \<lparr>bookings = [numbered ''b1'' ''L1'' (Some 1), numbered ''b2'' ''L1'' (Some 2),
                  numbered ''b3'' ''L1'' (Some 3), numbered ''bx'' ''L1'' None],
      locations = [mall], users = []\<rparr>"

definition store_no_location :: store where
  "store_no_location =
     \<lparr>bookings = [numbered ''bx'' ''L9'' None], locations = [mall], users = []\<rparr>"

definition store_dup :: store where
  "store_dup =
     \<lparr>bookings = [numbered ''b1'' ''L1'' (Some 1), numbered ''c1'' ''L1'' (Some 1),
                  numbered ''b2'' ''L1'' (Some 2), numbered ''b5'' ''L1'' (Some 5),
                  numbered ''bx'' ''L1'' None],
      locations = [mall], users = []\<rparr>"

definition store_fail :: store where
  "store_fail =
     \<lparr>bookings = [numbered ''b5'' ''L1'' (Some 5), blank_booking,
                  numbered ''bx'' ''L9'' None, numbered ''by'' ''L1'' None],
      locations = [mall], users = []\<rparr>"

definition with_status :: "string \<Rightarrow> string \<Rightarrow> booking" where
  "with_status i s = blank_booking\<lparr>booking_id := i, status := s\<rparr>"

definition store_seven_booked :: store where
  "store_seven_booked =
     \<lparr>bookings = [with_status ''a1'' ''BOOKED'', with_status ''a2'' ''TBC'',
                  with_status ''a3'' ''BOOKED'', with_status ''a4'' ''BOOKED'',
                  with_status ''a5'' ''CONFIRMED'', with_status ''a6'' ''BOOKED'',
                  with_status ''a7'' ''BOOKED'', with_status ''a8'' ''BOOKED'',
                  with_status ''a9'' ''BOOKED''],
      locations = [mall], users = []\<rparr>"

definition admin :: req_user where
  "admin = \<lparr>req_user_id = ''u0'', req_user_role = Some ''ADMIN''\<rparr>"

definition plain_query :: list_query where
  "plain_query =
     \<lparr>q_locationId = None, q_status = None, q_salesPersonId = None,
      q_includeAllSalesPersons = None, q_page = NaN, q_limit = NaN,
      q_hasCollectionDate = None\<rparr>"

definition sold_by :: "string \<Rightarrow> string \<Rightarrow> string \<Rightarrow> booking" where
  "sold_by i s d =
     blank_booking\<lparr>booking_id := i, salesPersonId := s, sessionDate := Some d,
                   sessionTime := Some ''10:00''\<rparr>"

definition store_two_sellers :: store where
  "store_two_sellers =
     \<lparr>bookings = [sold_by ''s1'' ''u1'' ''2024-03-02'', sold_by ''s2'' ''u2'' ''2024-03-01'',
                  sold_by ''s3'' ''u1'' ''2024-03-01'', sold_by ''s4'' ''u2'' ''2024-03-03''],
      locations = [mall], users = []\<rparr>"

definition store_one_seller :: store where
  "store_one_seller =
     \<lparr>bookings = [sold_by ''s1'' ''u1'' ''2024-03-02'', sold_by ''s9'' ''u3'' ''2024-02-01'',
                  sold_by ''s3'' ''u1'' ''2024-03-01''],
      locations = [mall], users = []\<rparr>"

definition seller :: req_user where
  "seller = \<lparr>req_user_id = ''u1'', req_user_role = Some ''SALES_PERSON''\<rparr>"

definition slot_booking :: "string \<Rightarrow> string option \<Rightarrow> string option \<Rightarrow> booking" where
  "slot_booking i d t = blank_booking\<lparr>booking_id := i, sessionDate := d, sessionTime := t\<rparr>"

definition store_abc :: store where
  "store_abc =
     \<lparr>bookings = [slot_booking ''A'' (Some ''2024-01-02'') (Some ''09:00''),
                  slot_booking ''B'' (Some ''2024-01-02'') (Some ''08:00''),
                  slot_booking ''C'' None None],
      locations = [mall], users = []\<rparr>"

definition store_special :: store where
  "store_special =
     \<lparr>bookings = [slot_booking ''C'' None (Some ''06:00''),
                  slot_booking ''A'' (Some ''2024-01-02'') (Some ''09:00''),
                  slot_booking ''N'' (Some ''2024-01-02'') None,
                  (slot_booking ''D'' (Some ''2024-01-05'') (Some ''10:00''))
                    \<lparr>specialRequestDate := Some ''2024-01-01'',
                     specialRequestTime := Some ''17:00''\<rparr>,
                  slot_booking ''B'' (Some ''2024-01-02'') (Some ''08:00'')],
      locations = [mall], users = []\<rparr>"

definition store_five :: store where
  "store_five =
     \<lparr>bookings = [slot_booking ''p3'' (Some ''2024-02-03'') (Some ''10:00''),
                  slot_booking ''p1'' (Some ''2024-02-01'') (Some ''10:00''),
                  slot_booking ''p5'' None None,
                  slot_booking ''p2'' (Some ''2024-02-01'') (Some ''11:30''),
                  slot_booking ''p4'' (Some ''2024-02-03'') None],
      locations = [mall], users = []\<rparr>"

definition create_request :: create_body where
  "create_request =
     \<lparr>cb_customerName = '' Ann Lee '', cb_phoneNumber = ''0712-345 6789'',
      cb_emergencyPhoneNumber = Undefined, cb_photoshootType = ''family'',
      cb_sessionDate = Str ''2024-05-01'', cb_sessionTime = Str ''10:00'',
      cb_specialRequestDate = Null, cb_specialRequestTime = Null,
      cb_paymentMethod = ''not-paid'', cb_locationId = Undefined,
      cb_status = Undefined, cb_notes = Undefined\<rparr>"

definition created_booking :: booking where
  "created_booking =
     \<lparr>booking_id = ''n1'', customerName = ''Ann Lee'', phoneNumber = ''07123456789'',
      emergencyPhoneNumber = None, photoshootType = ''family'',
      sessionDate = Some ''2024-05-01'', sessionTime = Some ''10:00'',
      specialRequestDate = None, specialRequestTime = None,
      paymentMethod = ''NOT_PAID'', status = ''BOOKED'', booking_notes = None,
      studioNotes = None, cancellationReason = None, locationId = None,
      salesPersonId = ''u1'', studioNumber = None,
      collectionDate = None, collectionTime = None\<rparr>"

definition empty_update :: update_body where
  "empty_update =
     \<lparr>ub_customerName = Undefined, ub_phoneNumber = Undefined,
      ub_emergencyPhoneNumber = Undefined, ub_photoshootType = Undefined,
      ub_sessionDate = Undefined, ub_sessionTime = Undefined,
      ub_specialRequestDate = Undefined, ub_specialRequestTime = Undefined,
      ub_paymentMethod = Undefined, ub_status = Undefined, ub_locationId = Undefined,
      ub_notes = Undefined, ub_studioNotes = Undefined, ub_cancellationReason = Undefined,
      ub_collectionDate = Undefined, ub_collectionTime = Undefined\<rparr>"

definition store_tbc :: store where
  "store_tbc =
     \<lparr>bookings = [(numbered ''t1'' ''L1'' None)\<lparr>status := ''TBC''\<rparr>],
      locations = [mall], users = []\<rparr>"

definition slotless_request :: create_body where
  "slotless_request = create_request\<lparr>cb_sessionDate := Null, cb_sessionTime := Str []\<rparr>"

definition seller_one_store :: store where
  "seller_one_store =
     \<lparr>bookings = [sold_by ''s1'' ''u1'' ''2024-03-02''], locations = [mall], users = []\<rparr>"

definition collected :: "string \<Rightarrow> string \<Rightarrow> string \<Rightarrow> booking" where
  "collected i d t = blank_booking\<lparr>booking_id := i, collectionDate := Some d, collectionTime := Some t\<rparr>"

definition store_am_pm :: store where
  "store_am_pm =
     \<lparr>bookings = [collected ''X'' ''2024-06-01'' ''10:30 AM'',
                  collected ''Y'' ''2024-06-01'' ''10:30 am''],
      locations = [mall], users = []\<rparr>"

definition collection_query :: list_query where
  "collection_query = plain_query\<lparr>q_hasCollectionDate := Some ''true''\<rparr>"

section \<open>Properties\<close>

subsection \<open>The gap scan\<close>

lemma gap_loop_fresh:
  "sorted_wrt (<) xs \<Longrightarrow> \<forall>x\<in>set xs. i + 1 \<le> x \<Longrightarrow>
   gap_loop i xs (i + 1) \<notin> set xs \<and> i + 1 \<le> gap_loop i xs (i + 1) \<and>
   (\<forall>k. i + 1 \<le> k \<and> k < gap_loop i xs (i + 1) \<longrightarrow> k \<in> set xs)"
proof (induction xs arbitrary: i)
  case Nil
  then show ?case by simp
next
  case (Cons x xs)
  show ?case
  proof (cases "x = i + 1")
    case True
    have rest: "\<forall>y\<in>set xs. (i + 1) + 1 \<le> y" using Cons.prems True by auto
    have "sorted_wrt (<) xs" using Cons.prems by simp
    from Cons.IH [OF this rest]
    have IH: "gap_loop (i + 1) xs (i + 1 + 1) \<notin> set xs"
      "i + 1 + 1 \<le> gap_loop (i + 1) xs (i + 1 + 1)"
      "\<And>k. i + 1 + 1 \<le> k \<Longrightarrow> k < gap_loop (i + 1) xs (i + 1 + 1) \<Longrightarrow> k \<in> set xs"
      by blast+
    have eq: "gap_loop i (x # xs) (i + 1) = gap_loop (i + 1) xs (i + 1 + 1)"
      using True by (simp add: Let_def)
    show ?thesis unfolding eq
    proof (intro conjI allI impI)
      show "gap_loop (i + 1) xs (i + 1 + 1) \<notin> set (x # xs)" using IH(1,2) True by auto
      show "i + 1 \<le> gap_loop (i + 1) xs (i + 1 + 1)" using IH(2) by linarith
      fix k assume k: "i + 1 \<le> k \<and> k < gap_loop (i + 1) xs (i + 1 + 1)"
      show "k \<in> set (x # xs)"
      proof (cases "k = i + 1")
        case True
        then show ?thesis using \<open>x = i + 1\<close> by simp
      next
        case False
        then have "i + 1 + 1 \<le> k" using k by linarith
        then show ?thesis using IH(3) k by simp
      qed
    qed
  next
    case False
    then show ?thesis using Cons.prems by (auto simp: Let_def)
  qed
qed

lemma gap_loop_positions:
  "i + 1 \<le> gap_loop i xs (i + 1) \<and> gap_loop i xs (i + 1) \<le> i + int (length xs) + 1 \<and>
   (\<forall>k. int k < gap_loop i xs (i + 1) - i - 1 \<longrightarrow> xs ! k = i + int k + 1) \<and>
   (gap_loop i xs (i + 1) - i - 1 < int (length xs) \<longrightarrow>
      xs ! nat (gap_loop i xs (i + 1) - i - 1) \<noteq> gap_loop i xs (i + 1))"
proof (induction xs arbitrary: i)
  case Nil
  then show ?case by simp
next
  case (Cons x xs)
  show ?case
  proof (cases "x = i + 1")
    case True
    let ?r = "gap_loop (i + 1) xs (i + 1 + 1)"
    have eq: "gap_loop i (x # xs) (i + 1) = ?r" using True by (simp add: Let_def)
    note IH = Cons.IH [of "i + 1"]
    show ?thesis unfolding eq
    proof (intro conjI allI impI)
      show "i + 1 \<le> ?r" using IH by linarith
      show "?r \<le> i + int (length (x # xs)) + 1" using IH by simp
      fix k assume "int k < ?r - i - 1"
      then show "(x # xs) ! k = i + int k + 1"
        using IH True by (cases k) auto
    next
      assume "?r - i - 1 < int (length (x # xs))"
      moreover have "nat (?r - i - 1) = Suc (nat (?r - (i + 1) - 1))" using IH by linarith
      ultimately show "(x # xs) ! nat (?r - i - 1) \<noteq> ?r" using IH by simp
    qed
  next
    case False
    then show ?thesis by (auto simp: Let_def)
  qed
qed

lemma gap_scan_loop: "gap_scan xs = gap_loop 0 xs (0 + 1)"
  by (cases xs) (simp_all add: gap_scan_def)

lemma gap_scan_eq_first_gap_spec: "gap_scan xs = first_gap_spec xs"
proof -
  let ?r = "gap_scan xs"
  let ?P = "\<lambda>k. xs ! k \<noteq> int k + 1"
  from gap_loop_positions [of 0 xs]
  have r1: "1 \<le> ?r" and r2: "?r \<le> int (length xs) + 1"
    and r3: "\<And>k. int k < ?r - 1 \<Longrightarrow> xs ! k = int k + 1"
    and r4: "?r - 1 < int (length xs) \<Longrightarrow> xs ! nat (?r - 1) \<noteq> ?r"
    by (simp_all add: gap_scan_loop)
  show ?thesis
  proof (cases "?r - 1 < int (length xs)")
    case True
    let ?k = "nat (?r - 1)"
    have k: "?k < length xs" using True r1 by linarith
    have "find ?P [0..<length xs] = Some ?k"
      unfolding find_Some_iff
    proof (intro exI [of _ ?k] conjI allI impI)
      show "?k < length [0..<length xs]" using k by simp
      show "?k = [0..<length xs] ! ?k" using k by simp
      show "xs ! ([0..<length xs] ! ?k) \<noteq> int ([0..<length xs] ! ?k) + 1"
        using k r4 [OF True] r1 by simp
      fix j assume j: "j < ?k"
      then have "j < length xs" using k by linarith
      moreover have "xs ! j = int j + 1" using r3 [of j] j by linarith
      ultimately show "\<not> xs ! ([0..<length xs] ! j) \<noteq> int ([0..<length xs] ! j) + 1"
        by simp
    qed
    then show ?thesis using r1 by (simp add: first_gap_spec_def)
  next
    case False
    then have len: "?r = int (length xs) + 1" using r2 by linarith
    have "find ?P [0..<length xs] = None"
      unfolding find_None_iff using r3 len by auto
    then show ?thesis using len by (simp add: first_gap_spec_def)
  qed
qed

lemma gap_scan_fresh:
  assumes "sorted xs" "distinct xs" "list_all (\<lambda>n. 0 < n) xs"
  shows "gap_scan xs \<notin> set xs" and "0 < gap_scan xs"
    and "\<And>k. 0 < k \<Longrightarrow> k < gap_scan xs \<Longrightarrow> k \<in> set xs"
proof -
  have s: "sorted_wrt (<) xs" using assms(1,2) by (simp add: strict_sorted_iff)
  have p: "\<forall>x\<in>set xs. 0 + 1 \<le> x" using assms(3) by (auto simp: list_all_iff)
  from gap_loop_fresh [OF s p]
  show "gap_scan xs \<notin> set xs" and "0 < gap_scan xs"
    and "\<And>k. 0 < k \<Longrightarrow> k < gap_scan xs \<Longrightarrow> k \<in> set xs"
    by (auto simp: gap_scan_loop)
qed

lemma gap_scan_least:
  assumes "sorted xs" "distinct xs" "list_all (\<lambda>n. 0 < n) xs"
  shows "gap_scan xs = (LEAST k. 0 < k \<and> k \<notin> set xs)"
proof (rule Least_equality [symmetric])
  show "0 < gap_scan xs \<and> gap_scan xs \<notin> set xs"
    using gap_scan_fresh(1,2) [OF assms] by simp
  fix y assume "0 < y \<and> y \<notin> set xs"
  then show "gap_scan xs \<le> y" using gap_scan_fresh(3) [OF assms, of y] by force
qed

subsection \<open>The reads of the allocator\<close>

lemma set_map_filter_Some: "set (List.map_filter f xs) = {y. \<exists>x\<in>set xs. f x = Some y}"
  by (induction xs) (auto simp: map_filter_simps split: option.splits)

lemma set_bookingsWithStudioNumbers:
  "set (bookingsWithStudioNumbers st loc) =
     {n. \<exists>b\<in>set (bookings st). locationId b = Some loc \<and> studioNumber b = Some n}"
  by (auto simp: bookingsWithStudioNumbers_def set_map_filter_Some split: if_splits)

lemma sorted_bookingsWithStudioNumbers: "sorted (bookingsWithStudioNumbers st loc)"
  by (simp add: bookingsWithStudioNumbers_def)

lemma existingStudioNumber_in_numbers:
  "existingStudioNumber st loc n i \<noteq> None \<Longrightarrow> n \<in> set (bookingsWithStudioNumbers st loc)"
  by (auto simp: existingStudioNumber_def set_bookingsWithStudioNumbers find_None_iff)

text \<open>
  In every store the fallback reads a non-empty array, so the number to write is always
  defined: a booking that the re-query finds is one of the rows of the first query.
\<close>

lemma allocation_final_defined: "final (allocation_of st loc i) \<noteq> None"
proof (cases "conflict (allocation_of st loc i)")
  case True
  then have "existingStudioNumber st loc (gap_scan (bookingsWithStudioNumbers st loc)) i \<noteq> None"
    by (simp add: allocation_of_def Let_def)
  from existingStudioNumber_in_numbers [OF this]
  have "bookingsWithStudioNumbers st loc \<noteq> []" by auto
  then show ?thesis by (simp add: allocation_of_def Let_def last_plus_one_def)
next
  case False
  then show ?thesis by (simp add: allocation_of_def Let_def)
qed

lemma allocation_without_conflict:
  assumes "numbers_distinct st loc" "numbers_positive st loc"
  shows "allocation_of st loc i =
           \<lparr>candidate = gap_scan (bookingsWithStudioNumbers st loc), conflict = False,
            final = Some (gap_scan (bookingsWithStudioNumbers st loc))\<rparr>"
proof -
  have "gap_scan (bookingsWithStudioNumbers st loc) \<notin> set (bookingsWithStudioNumbers st loc)"
    using gap_scan_fresh(1) [OF sorted_bookingsWithStudioNumbers] assms
    by (simp add: numbers_distinct_def numbers_positive_def)
  then have "existingStudioNumber st loc (gap_scan (bookingsWithStudioNumbers st loc)) i = None"
    using existingStudioNumber_in_numbers by blast
  then show ?thesis by (simp add: allocation_of_def Let_def)
qed

subsection \<open>Allocation assigns the smallest free number\<close>

text \<open>
  C1 (amended). For a booking that exists, has a location id and no studio number, whose
  location exists, at a location whose studio numbers are pairwise distinct positive
  integers: \<open>allocateStudioNumber\<close> answers 200 and writes the first 1-indexed position of
  the sorted numbers whose value differs from the position, or the count plus one; this is
  the smallest positive integer not used at the location.
\<close>

theorem allocate_assigns_first_gap:
  assumes "booking_findUnique st i = Some b" and "locationId b = Some loc" and "loc \<noteq> []"
    and "studioNumber b = None" and "location_findUnique st loc = Some l"
    and "numbers_distinct st loc" and "numbers_positive st loc"
  shows "(let n = first_gap_spec (bookingsWithStudioNumbers st loc);
              write = (\<lambda>b. b\<lparr>studioNumber := Some n, status := ''CONFIRMED''\<rparr>)
          in allocateStudioNumber st i =
               (successResponse (write b, l)
                  (''Studio number '' @ studioNumberDisplay l n @ '' allocated successfully'') 200,
                booking_update st i write) \<and>
             n = (LEAST k. 0 < k \<and> k \<notin> set (bookingsWithStudioNumbers st loc)))"
proof -
  let ?xs = "bookingsWithStudioNumbers st loc"
  have fin: "final (allocation_of st loc i) = Some (first_gap_spec ?xs)"
    using allocation_without_conflict [OF assms(6,7)] by (simp add: gap_scan_eq_first_gap_spec)
  have least: "first_gap_spec ?xs = (LEAST k. 0 < k \<and> k \<notin> set ?xs)"
    using gap_scan_least [OF sorted_bookingsWithStudioNumbers] assms(6,7)
    by (simp add: numbers_distinct_def numbers_positive_def gap_scan_eq_first_gap_spec)
  have "truthy (locationId b)" using assms(2,3) by (simp add: truthy_def)
  then show ?thesis
    using assms(1,2,4,5) fin least
    by (simp add: allocateStudioNumber_def allocate_with_def Let_def)
qed

text \<open>The numbers 1, 2, 4 give 3 and the numbers 1, 2, 3 give 4.\<close>

theorem allocate_assigns_first_gap_witness:
  "fst (allocateStudioNumber store_124 ''bx'') =
     successResponse (numbered ''bx'' ''L1'' (Some 3)\<lparr>status := ''CONFIRMED''\<rparr>, mall)
       ''Studio number MOM-3 allocated successfully'' 200 \<and>
   (LEAST k. 0 < k \<and> k \<notin> set (bookingsWithStudioNumbers store_124 ''L1'')) = 3 \<and>
   fst (allocateStudioNumber store_123 ''bx'') =
     successResponse (numbered ''bx'' ''L1'' (Some 4)\<lparr>status := ''CONFIRMED''\<rparr>, mall)
       ''Studio number MOM-4 allocated successfully'' 200 \<and>
   (LEAST k. 0 < k \<and> k \<notin> set (bookingsWithStudioNumbers store_123 ''L1'')) = 4"
proof -
  have a1: "booking_findUnique store_124 ''bx'' = Some (numbered ''bx'' ''L1'' None)"
    by code_simp
  have a2: "locationId (numbered ''bx'' ''L1'' None) = Some ''L1''" by code_simp
  have a3: "''L1'' \<noteq> []" by simp
  have a4: "studioNumber (numbered ''bx'' ''L1'' None) = None" by code_simp
  have a5: "location_findUnique store_124 ''L1'' = Some mall" by code_simp
  have a6: "numbers_distinct store_124 ''L1''" by code_simp
  have a7: "numbers_positive store_124 ''L1''" by code_simp
  have g1: "first_gap_spec (bookingsWithStudioNumbers store_124 ''L1'') = 3" by code_simp
  have d1: "studioNumberDisplay mall 3 = ''MOM-3''" by code_simp
  have b1: "booking_findUnique store_123 ''bx'' = Some (numbered ''bx'' ''L1'' None)"
    by code_simp
  have b5: "location_findUnique store_123 ''L1'' = Some mall" by code_simp
  have b6: "numbers_distinct store_123 ''L1''" by code_simp
  have b7: "numbers_positive store_123 ''L1''" by code_simp
  have g2: "first_gap_spec (bookingsWithStudioNumbers store_123 ''L1'') = 4" by code_simp
  have d2: "studioNumberDisplay mall 4 = ''MOM-4''" by code_simp
  have e: "numbered ''bx'' ''L1'' None\<lparr>studioNumber := Some n, status := ''CONFIRMED''\<rparr>
           = numbered ''bx'' ''L1'' (Some n)\<lparr>status := ''CONFIRMED''\<rparr>" for n
    by (simp add: numbered_def)
  show ?thesis
    using allocate_assigns_first_gap [OF a1 a2 a3 a4 a5 a6 a7]
      allocate_assigns_first_gap [OF b1 a2 a3 a4 b5 b6 b7]
    by (simp add: Let_def g1 g2 d1 d2 e)
qed

text \<open>
  C1 as stated fails: a booking with a location id and no studio number whose location row
  is missing is answered 404 and no number is assigned.
\<close>

theorem allocate_missing_location_counterexample:
  "booking_findUnique store_no_location ''bx'' = Some (numbered ''bx'' ''L9'' None) \<and>
   locationId (numbered ''bx'' ''L9'' None) = Some ''L9'' \<and>
   studioNumber (numbered ''bx'' ''L9'' None) = None \<and>
   allocateStudioNumber store_no_location ''bx'' =
     (errorResponse ''Location not found for this booking'' 404, store_no_location)"
  by code_simp

subsection \<open>The fallback of the allocator\<close>

text \<open>With a number held twice the re-query does find the candidate taken.\<close>

lemma duplicate_numbers_reach_fallback:
  "allocation_of store_dup ''L1'' ''bx'' = \<lparr>candidate = 2, conflict = True, final = Some 6\<rparr>"
  by code_simp

text \<open>
  C10. In one run of the allocator over a store that does not change between its reads (the
  model reads one store), at a location whose studio numbers are pairwise distinct positive
  integers: the re-query finds no other booking that holds the candidate of the gap scan,
  the fallback branch is not taken, the number written is the candidate, and whenever the
  re-query does find a booking the array the fallback reads is not empty.
\<close>

theorem fallback_unreachable:
  assumes "numbers_distinct st loc" and "numbers_positive st loc"
  shows "existingStudioNumber st loc (gap_scan (bookingsWithStudioNumbers st loc)) i = None \<and>
         candidate (allocation_of st loc i) = gap_scan (bookingsWithStudioNumbers st loc) \<and>
         \<not> conflict (allocation_of st loc i) \<and>
         final (allocation_of st loc i) = Some (gap_scan (bookingsWithStudioNumbers st loc)) \<and>
         (booking_findUnique st i = Some b \<and> locationId b = Some loc \<and> loc \<noteq> [] \<and>
          studioNumber b = None \<and> location_findUnique st loc = Some l \<longrightarrow>
            snd (allocateStudioNumber st i) =
              booking_update st i
                (\<lambda>b. b\<lparr>studioNumber := Some (gap_scan (bookingsWithStudioNumbers st loc)),
                       status := ''CONFIRMED''\<rparr>)) \<and>
         (existingStudioNumber st loc n i \<noteq> None \<longrightarrow>
            last_plus_one (bookingsWithStudioNumbers st loc) \<noteq> None)"
proof -
  let ?g = "gap_scan (bookingsWithStudioNumbers st loc)"
  note a = allocation_without_conflict [OF assms, of i]
  have "?g \<notin> set (bookingsWithStudioNumbers st loc)"
    using gap_scan_fresh(1) [OF sorted_bookingsWithStudioNumbers] assms
    by (simp add: numbers_distinct_def numbers_positive_def)
  then have 1: "existingStudioNumber st loc ?g i = None"
    using existingStudioNumber_in_numbers by blast
  have 5: "snd (allocateStudioNumber st i) =
             booking_update st i (\<lambda>b. b\<lparr>studioNumber := Some ?g, status := ''CONFIRMED''\<rparr>)"
    if "booking_findUnique st i = Some b \<and> locationId b = Some loc \<and> loc \<noteq> [] \<and>
        studioNumber b = None \<and> location_findUnique st loc = Some l"
    using that a by (simp add: allocateStudioNumber_def allocate_with_def Let_def truthy_def)
  have 6: "last_plus_one (bookingsWithStudioNumbers st loc) \<noteq> None"
    if "existingStudioNumber st loc n i \<noteq> None"
    using existingStudioNumber_in_numbers [OF that] by (auto simp: last_plus_one_def)
  show ?thesis using a 1 5 6 by simp
qed

theorem fallback_unreachable_witness:
  "numbers_distinct store_124 ''L1'' \<and> numbers_positive store_124 ''L1'' \<and>
   existingStudioNumber store_124 ''L1'' 3 ''bx'' = None \<and>
   allocation_of store_124 ''L1'' ''bx'' = \<lparr>candidate = 3, conflict = False, final = Some 3\<rparr> \<and>
   map studioNumber (bookings (snd (allocateStudioNumber store_124 ''bx'')))
     = [Some 4, Some 1, Some 3, Some 2]"
proof -
  have a6: "numbers_distinct store_124 ''L1''" by code_simp
  have a7: "numbers_positive store_124 ''L1''" by code_simp
  have g: "gap_scan (bookingsWithStudioNumbers store_124 ''L1'') = 3" by code_simp
  have h: "booking_findUnique store_124 ''bx'' = Some (numbered ''bx'' ''L1'' None) \<and>
           locationId (numbered ''bx'' ''L1'' None) = Some ''L1'' \<and> ''L1'' \<noteq> [] \<and>
           studioNumber (numbered ''bx'' ''L1'' None) = None \<and>
           location_findUnique store_124 ''L1'' = Some mall" by code_simp
  have u: "map studioNumber (bookings (booking_update store_124 ''bx''
             (\<lambda>b. b\<lparr>studioNumber := Some 3, status := ''CONFIRMED''\<rparr>)))
           = [Some 4, Some 1, Some 3, Some 2]" by code_simp
  from fallback_unreachable [OF a6 a7, of "''bx''" "numbered ''bx'' ''L1'' None" mall 3]
  have "existingStudioNumber store_124 ''L1'' 3 ''bx'' = None"
    and "candidate (allocation_of store_124 ''L1'' ''bx'') = 3"
    and "\<not> conflict (allocation_of store_124 ''L1'' ''bx'')"
    and "final (allocation_of store_124 ''L1'' ''bx'') = Some 3"
    and "snd (allocateStudioNumber store_124 ''bx'') =
           booking_update store_124 ''bx'' (\<lambda>b. b\<lparr>studioNumber := Some 3, status := ''CONFIRMED''\<rparr>)"
    using h by (simp_all add: g)
  then show ?thesis using a6 a7 u
    by (cases "allocation_of store_124 ''L1'' ''bx''") simp
qed

subsection \<open>Failures of the allocation\<close>

text \<open>
  C5. \<open>allocateStudioNumber\<close> answers 404 when the booking is missing, 400 when the
  booking has no location id, 400 when it already has a studio number, and 404 when its
  location row is missing (the checks run in this order); whenever the answer is not 200 the
  store is unchanged.
\<close>

theorem allocate_failures:
  "(booking_findUnique st i = None \<longrightarrow>
      allocateStudioNumber st i = (errorResponse ''Booking not found'' 404, st)) \<and>
   (booking_findUnique st i = Some b \<and> \<not> truthy (locationId b) \<longrightarrow>
      allocateStudioNumber st i =
        (errorResponse
           ''Booking must have a location assigned before allocating studio number'' 400, st)) \<and>
   (booking_findUnique st i = Some b \<and> studioNumber b \<noteq> None \<longrightarrow>
      status_code (fst (allocateStudioNumber st i)) = 400 \<and>
      snd (allocateStudioNumber st i) = st) \<and>
   (booking_findUnique st i = Some b \<and> truthy (locationId b) \<and> studioNumber b = None \<and>
    location_findUnique st (the (locationId b)) = None \<longrightarrow>
      allocateStudioNumber st i =
        (errorResponse ''Location not found for this booking'' 404, st)) \<and>
   (status_code (fst (allocateStudioNumber st i)) \<noteq> 200 \<longrightarrow>
      snd (allocateStudioNumber st i) = st)"
  by (auto simp: allocateStudioNumber_def allocate_with_def Let_def
           split: option.splits)

text \<open>A booking that already has studio number 5 is answered 400 and nothing changes.\<close>

theorem allocate_failures_witness:
  "booking_findUnique store_fail ''zz'' = None \<and>
   allocateStudioNumber store_fail ''zz'' = (errorResponse ''Booking not found'' 404, store_fail) \<and>
   booking_findUnique store_fail ''b0'' = Some blank_booking \<and>
   locationId blank_booking = None \<and>
   allocateStudioNumber store_fail ''b0'' =
     (errorResponse
        ''Booking must have a location assigned before allocating studio number'' 400,
      store_fail) \<and>
   booking_findUnique store_fail ''b5'' = Some (numbered ''b5'' ''L1'' (Some 5)) \<and>
   status_code (fst (allocateStudioNumber store_fail ''b5'')) = 400 \<and>
   snd (allocateStudioNumber store_fail ''b5'') = store_fail \<and>
   booking_findUnique store_fail ''bx'' = Some (numbered ''bx'' ''L9'' None) \<and>
   location_findUnique store_fail ''L9'' = None \<and>
   allocateStudioNumber store_fail ''bx'' =
     (errorResponse ''Location not found for this booking'' 404, store_fail)"
proof -
  have z: "booking_findUnique store_fail ''zz'' = None" by code_simp
  have b0: "booking_findUnique store_fail ''b0'' = Some blank_booking" by code_simp
  have b0l: "locationId blank_booking = None" by code_simp
  have b5: "booking_findUnique store_fail ''b5'' = Some (numbered ''b5'' ''L1'' (Some 5))"
    by code_simp
  have b5n: "studioNumber (numbered ''b5'' ''L1'' (Some 5)) \<noteq> None" by code_simp
  have bx: "booking_findUnique store_fail ''bx'' = Some (numbered ''bx'' ''L9'' None)"
    by code_simp
  have bxl: "truthy (locationId (numbered ''bx'' ''L9'' None)) \<and>
             studioNumber (numbered ''bx'' ''L9'' None) = None \<and>
             location_findUnique store_fail (the (locationId (numbered ''bx'' ''L9'' None))) = None"
    by code_simp
  have l9: "location_findUnique store_fail ''L9'' = None" by code_simp
  show ?thesis
    using allocate_failures [of store_fail "''zz''" blank_booking]
      allocate_failures [of store_fail "''b0''" blank_booking]
      allocate_failures [of store_fail "''b5''" "numbered ''b5'' ''L1'' (Some 5)"]
      allocate_failures [of store_fail "''bx''" "numbered ''bx'' ''L9'' None"]
      z b0 b0l b5 b5n bx bxl l9
    by (simp add: truthy_def)
qed

subsection \<open>The update of the allocation\<close>

text \<open>
  The handler of the paginating controller makes one update, which writes the number and
  the status \<open>CONFIRMED\<close> together.
\<close>

lemma allocate_confirms:
  assumes "status_code (fst (allocateStudioNumber st i)) = 200"
  shows "\<exists>b n l msg. booking_findUnique st i = Some b \<and>
           final (allocation_of st (the (locationId b)) i) = Some n \<and>
           allocateStudioNumber st i =
             (successResponse (b\<lparr>studioNumber := Some n, status := ''CONFIRMED''\<rparr>, l) msg 200,
              booking_update st i (\<lambda>b. b\<lparr>studioNumber := Some n, status := ''CONFIRMED''\<rparr>))"
  using assms
  by (auto simp: allocateStudioNumber_def allocate_with_def Let_def
           split: option.splits if_splits)

text \<open>
  C4 fails in \<open>src/controllers/booking.controller.js\<close>: its handler allocates number 4 to
  a booking of status \<open>BOOKED\<close> and leaves the status as it was.
\<close>

theorem allocate_controller_keeps_status:
  "status_code (fst (allocateStudioNumber_controller store_123 ''bx'')) = 200 \<and>
   map (\<lambda>b. (booking_id b, studioNumber b, status b))
     (bookings (snd (allocateStudioNumber_controller store_123 ''bx'')))
   = [(''b1'', Some 1, ''BOOKED''), (''b2'', Some 2, ''BOOKED''),
      (''b3'', Some 3, ''BOOKED''), (''bx'', Some 4, ''BOOKED'')]"
  by code_simp

subsection \<open>The comparator and the sort\<close>

lemma truthy_Some: "truthy v \<Longrightarrow> \<exists>s. v = Some s \<and> s \<noteq> []"
  by (cases v) (simp_all add: truthy_def)

text \<open>For every comparator the sort permutes its input.\<close>

lemma set_insert_by: "set (insert_by cmp x ys) = insert x (set ys)"
  by (induction ys) auto

lemma length_insert_by: "length (insert_by cmp x ys) = Suc (length ys)"
  by (induction ys) auto

lemma set_js_sort: "set (js_sort cmp xs) = set xs"
  by (induction xs) (simp_all add: js_sort_def set_insert_by)

lemma length_js_sort: "length (js_sort cmp xs) = length xs"
  by (induction xs) (simp_all add: js_sort_def length_insert_by)

text \<open>
  On rows whose compared columns are formatted, and for a collation that orders the two
  formats as the code units do, the comparator is the order of the ranks and the sort is
  the stable sort by rank.
\<close>

lemma formatted_js_or: "formatted pat u \<Longrightarrow> formatted pat v \<Longrightarrow> formatted pat (js_or u v)"
  by (simp add: js_or_def)

lemma compared_date_formatted:
  "compared_columns_formatted c b \<Longrightarrow>
   formatted date_format
     (if c then collectionDate b else js_or (specialRequestDate b) (sessionDate b))"
  by (simp add: compared_columns_formatted_def formatted_js_or)

lemma compared_time_formatted:
  "compared_columns_formatted c b \<Longrightarrow>
   formatted time_format
     (if c then collectionTime b else js_or (specialRequestTime b) (sessionTime b))"
  by (simp add: compared_columns_formatted_def formatted_js_or)

lemma compare_bookings_rank:
  assumes lcd: "collates_format lc date_format" and lct: "collates_format lc time_format"
    and fa: "compared_columns_formatted c a" and fb: "compared_columns_formatted c b"
  shows "compare_bookings lc c a b \<le> 0 \<longleftrightarrow> sort_rank c a \<le> sort_rank c b"
proof -
  let ?da = "if c then collectionDate a else js_or (specialRequestDate a) (sessionDate a)"
  let ?db = "if c then collectionDate b else js_or (specialRequestDate b) (sessionDate b)"
  let ?ta = "if c then collectionTime a else js_or (specialRequestTime a) (sessionTime a)"
  let ?tb = "if c then collectionTime b else js_or (specialRequestTime b) (sessionTime b)"
  note fda = compared_date_formatted [OF fa] and fdb = compared_date_formatted [OF fb]
  note fta = compared_time_formatted [OF fa] and ftb = compared_time_formatted [OF fb]
  consider "\<not> truthy ?da" | "truthy ?da" "\<not> truthy ?db" | "truthy ?da" "truthy ?db" by blast
  then show ?thesis
  proof cases
    case 1
    then show ?thesis
      by (simp add: compare_bookings_def sort_rank_def Let_def less_eq_prod_def)
  next
    case 2
    then show ?thesis
      by (simp add: compare_bookings_def sort_rank_def Let_def less_eq_prod_def)
  next
    case 3
    then obtain x y where x: "?da = Some x" and y: "?db = Some y"
      using truthy_Some by blast
    have dxy: "lc x y \<le> 0 \<longleftrightarrow> x \<le> y"
      using lcd fda fdb x y by (simp add: collates_format_def formatted_def)
    show ?thesis
    proof (cases "x = y")
      case False
      then show ?thesis using 3 x y dxy
        by (auto simp: compare_bookings_def sort_rank_def Let_def less_eq_prod_def)
    next
      case True
      consider "\<not> truthy ?ta" | "truthy ?ta" "\<not> truthy ?tb" | "truthy ?ta" "truthy ?tb"
        by blast
      then show ?thesis
      proof cases
        case 1
        then show ?thesis using 3 x y True
          by (simp add: compare_bookings_def sort_rank_def Let_def less_eq_prod_def)
      next
        case 2
        then show ?thesis using 3 x y True
          by (simp add: compare_bookings_def sort_rank_def Let_def less_eq_prod_def)
      next
        case 3
        then obtain s t where s: "?ta = Some s" and t: "?tb = Some t"
          using truthy_Some by blast
        have "lc s t \<le> 0 \<longleftrightarrow> s \<le> t"
          using lct fta ftb s t by (simp add: collates_format_def formatted_def)
        then show ?thesis using 3 \<open>truthy ?da\<close> \<open>truthy ?db\<close> x y True s t
          by (auto simp: compare_bookings_def sort_rank_def Let_def less_eq_prod_def)
      qed
    qed
  qed
qed

lemma insert_by_insort:
  assumes "collates_format lc date_format" and "collates_format lc time_format"
    and "compared_columns_formatted c x" and "list_all (compared_columns_formatted c) ys"
  shows "insert_by (compare_bookings lc c) x ys = insort_key (sort_rank c) x ys"
  using assms(4)
  by (induction ys) (simp_all add: compare_bookings_rank [OF assms(1,2,3)])

lemma js_sort_sort_key:
  assumes "collates_format lc date_format" and "collates_format lc time_format"
    and "list_all (compared_columns_formatted c) xs"
  shows "js_sort (compare_bookings lc c) xs = sort_key (sort_rank c) xs"
  using assms(3)
proof (induction xs)
  case Nil
  then show ?case by (simp add: js_sort_def)
next
  case (Cons x xs)
  then have x: "compared_columns_formatted c x"
    and xs: "list_all (compared_columns_formatted c) xs" by simp_all
  have rest: "js_sort (compare_bookings lc c) xs = sort_key (sort_rank c) xs"
    using Cons.IH xs by simp
  have "list_all (compared_columns_formatted c) (sort_key (sort_rank c) xs)"
    using xs by (simp add: list_all_iff)
  from insert_by_insort [OF assms(1,2) x this]
  show ?case using rest by (simp add: js_sort_def sort_key_def)
qed

lemma sorted_js_sort:
  assumes "collates_format lc date_format" and "collates_format lc time_format"
    and "list_all (compared_columns_formatted c) xs"
  shows "sorted (map (sort_rank c) (js_sort (compare_bookings lc c) xs))"
  by (simp add: js_sort_sort_key [OF assms])

subsection \<open>Slicing\<close>

lemma js_slice_map: "js_slice (map f xs) a b = map f (js_slice xs a b)"
  by (simp add: js_slice_def Let_def take_map drop_map)

lemma set_js_slice: "set (js_slice xs a b) \<subseteq> set xs"
  by (auto simp: js_slice_def Let_def dest: in_set_takeD in_set_dropD)

lemma sorted_wrt_js_slice: "sorted_wrt P xs \<Longrightarrow> sorted_wrt P (js_slice xs a b)"
  by (simp add: js_slice_def Let_def sorted_wrt_take sorted_wrt_drop)

lemma js_slice_take_drop:
  "0 \<le> a \<Longrightarrow> 0 \<le> b \<Longrightarrow>
   js_slice xs (Num a) (Num b) = take (nat b - nat a) (drop (nat a) xs)"
proof -
  assume a: "0 \<le> a" and b: "0 \<le> b"
  let ?n = "int (length xs)"
  have "take (nat (min b ?n - min a ?n)) (drop (nat (min a ?n)) xs)
        = take (nat b - nat a) (drop (nat a) xs)"
  proof (cases "a \<le> ?n")
    case True
    then have ma: "min a ?n = a" by simp
    show ?thesis
    proof (cases "b \<le> ?n")
      case True
      moreover have "nat (b - a) = nat b - nat a" using a b by linarith
      ultimately show ?thesis using ma by simp
    next
      case False
      then have "min b ?n = ?n" by simp
      moreover have "length (drop (nat a) xs) \<le> nat b - nat a" using False a b by simp
      moreover have "length (drop (nat a) xs) \<le> nat (?n - a)" using a by simp
      ultimately show ?thesis using ma by simp
    qed
  next
    case False
    then have "drop (nat a) xs = []" and "drop (nat (min a ?n)) xs = []" by simp_all
    then show ?thesis by simp
  qed
  then show ?thesis using a b by (simp add: js_slice_def slice_index_def Let_def)
qed

lemma filter_interval_upt:
  "filter (\<lambda>k. lo \<le> k \<and> k < hi) [0..<n] = [lo..<min hi n]"
proof (induction n)
  case 0
  then show ?case by simp
next
  case (Suc n)
  show ?case
  proof (cases "hi \<le> n")
    case True
    then show ?thesis using Suc by (simp add: min_def)
  next
    case False
    then have "min hi n = n" and "min hi (Suc n) = Suc n" by simp_all
    then show ?thesis using Suc False by (cases "lo \<le> n") simp_all
  qed
qed

lemma map_nth_upt: "m \<le> length xs \<Longrightarrow> map (\<lambda>k. xs ! k) [lo..<m] = take (m - lo) (drop lo xs)"
proof -
  assume m: "m \<le> length xs"
  have "take (m - lo) (drop lo xs) = drop lo (take m xs)" by (simp add: drop_take)
  also have "\<dots> = drop lo (take m (map (\<lambda>k. xs ! k) [0..<length xs]))" by (simp add: map_nth)
  also have "\<dots> = map (\<lambda>k. xs ! k) (drop lo (take m [0..<length xs]))"
    by (simp add: take_map drop_map)
  also have "\<dots> = map (\<lambda>k. xs ! k) [lo..<m]" using m by (simp add: min_def)
  finally show ?thesis by simp
qed

lemma slice_spec_take_drop:
  assumes "0 \<le> a" "0 \<le> b"
  shows "slice_spec xs a b = take (nat b - nat a) (drop (nat a) xs)"
proof -
  have "(\<lambda>k. a \<le> int k \<and> int k < b) = (\<lambda>k. nat a \<le> k \<and> k < nat b)"
    using assms by (intro ext) linarith
  then have "slice_spec xs a b = map (\<lambda>k. xs ! k) [nat a..<min (nat b) (length xs)]"
    by (simp add: slice_spec_def filter_interval_upt)
  also have "\<dots> = take (min (nat b) (length xs) - nat a) (drop (nat a) xs)"
    by (rule map_nth_upt) simp
  also have "\<dots> = take (nat b - nat a) (drop (nat a) xs)"
    by (cases "nat b \<le> length xs") (simp_all add: min_def)
  finally show ?thesis .
qed

lemma js_slice_spec:
  "0 \<le> a \<Longrightarrow> 0 \<le> b \<Longrightarrow> js_slice xs (Num a) (Num b) = slice_spec xs a b"
  by (simp add: js_slice_take_drop slice_spec_take_drop)

subsection \<open>The page fetch\<close>

lemma map_filter_map_Some:
  "(\<And>r. r \<in> set rows \<Longrightarrow> m (f r) = Some r) \<Longrightarrow> List.map_filter m (map f rows) = rows"
  by (induction rows) (simp_all add: map_filter_simps)

lemma bookingsMap_row:
  assumes "distinct (map booking_id rows)" and "r \<in> set rows"
  shows "bookingsMap rows (booking_id r) = Some r"
proof -
  have "distinct (map fst (rev (map (\<lambda>b. (booking_id b, b)) rows)))"
    using assms(1) by (simp add: rev_map [symmetric] comp_def)
  moreover have "(booking_id r, r) \<in> set (rev (map (\<lambda>b. (booking_id b, b)) rows))"
    using assms(2) by auto
  ultimately show ?thesis unfolding bookingsMap_def by (rule map_of_is_SomeI)
qed

lemma sortedBookings_rows:
  assumes "unique_ids st" and "set rows \<subseteq> set (bookings st)"
  shows "sortedBookings st (map booking_id rows) = rows"
proof -
  let ?fetched = "filter (\<lambda>b. booking_id b \<in> set (map booking_id rows)) (bookings st)"
  have d: "distinct (map booking_id ?fetched)"
    using assms(1) by (simp add: unique_ids_def distinct_map_filter)
  have "bookingsMap ?fetched (booking_id r) = Some r" if "r \<in> set rows" for r
  proof (rule bookingsMap_row [OF d])
    show "r \<in> set ?fetched" using that assms(2) by auto
  qed
  then show ?thesis unfolding sortedBookings_def by (rule map_filter_map_Some)
qed

lemma sortedBookings_page:
  assumes "unique_ids st"
  shows "sortedBookings st (paginatedIds lc st w c q) =
           js_slice (js_sort (compare_bookings lc c) (booking_findMany st w))
             (skip q) (js_add (skip q) (pageSize q))"
proof -
  let ?rows = "js_slice (js_sort (compare_bookings lc c) (booking_findMany st w))
                 (skip q) (js_add (skip q) (pageSize q))"
  have "set ?rows \<subseteq> set (bookings st)"
    using set_js_slice [of "js_sort (compare_bookings lc c) (booking_findMany st w)"]
    by (auto simp: set_js_sort booking_findMany_def)
  from sortedBookings_rows [OF assms this]
  show ?thesis by (simp add: paginatedIds_def sortedBookingIds_def js_slice_map)
qed

text \<open>
  The order in which the page fetch returns its rows does not matter: with unique ids the
  \<open>Map\<close> built from the rows is the same for every order.
\<close>

lemma bookingsMap_Some_iff:
  assumes "distinct (map booking_id rows)"
  shows "bookingsMap rows i = Some b \<longleftrightarrow> b \<in> set rows \<and> booking_id b = i"
proof
  assume "bookingsMap rows i = Some b"
  then have "(i, b) \<in> set (rev (map (\<lambda>b. (booking_id b, b)) rows))"
    unfolding bookingsMap_def by (rule map_of_SomeD)
  then show "b \<in> set rows \<and> booking_id b = i" by auto
next
  assume "b \<in> set rows \<and> booking_id b = i"
  then show "bookingsMap rows i = Some b"
    using bookingsMap_row [OF assms, of b] by simp
qed

lemma bookingsMap_order_irrelevant:
  assumes "distinct (map booking_id rows)" and "distinct (map booking_id rows')"
    and "set rows = set rows'"
  shows "bookingsMap rows = bookingsMap rows'"
proof (rule ext)
  fix i
  have "bookingsMap rows i = Some b \<longleftrightarrow> bookingsMap rows' i = Some b" for b
    by (simp only: bookingsMap_Some_iff [OF assms(1)] bookingsMap_Some_iff [OF assms(2)] assms(3))
  then show "bookingsMap rows i = bookingsMap rows' i"
    by (metis option.exhaust)
qed

subsection \<open>The summary and the page count\<close>

lemma count_status_fold:
  "count_or_zero (foldl count_status m bs) k =
     count_or_zero m k + length (filter (\<lambda>b. status b = k) bs)"
  by (induction bs arbitrary: m) (auto simp: count_status_def count_or_zero_def)

lemma status_counts_filter:
  "count_or_zero (status_counts bs) k = length (filter (\<lambda>b. status b = k) bs)"
proof -
  have "count_or_zero Map.empty k = 0" by (simp add: count_or_zero_def)
  then show ?thesis by (simp add: status_counts_def count_status_fold)
qed

lemma ceil_div_int: "d \<noteq> 0 \<Longrightarrow> ceil_div n (Num d) = Num (- ((- int n) div d))"
proof -
  assume "d \<noteq> 0"
  then have "ceil_div n (Num d) = Num \<lceil>(of_int (int n) :: rat) / of_int d\<rceil>"
    by (simp add: ceil_div_def)
  also have "\<lceil>(of_int (int n) :: rat) / of_int d\<rceil> = - ((- int n) div d)"
    by (rule ceiling_divide_eq_div)
  finally show ?thesis .
qed

lemma ceil_div_real: "d \<noteq> 0 \<Longrightarrow> ceil_div n (Num d) = Num \<lceil>real n / real_of_int d\<rceil>"
proof -
  assume d: "d \<noteq> 0"
  have "\<lceil>real n / real_of_int d\<rceil> = \<lceil>real_of_int (int n) / real_of_int d\<rceil>" by simp
  also have "\<dots> = - ((- int n) div d)" by (rule ceiling_divide_eq_div)
  finally show ?thesis by (simp add: ceil_div_int [OF d])
qed

lemma ceiling_pages:
  assumes "1 \<le> d"
  shows "int n \<le> \<lceil>real n / real_of_int d\<rceil> * d"
    and "(\<lceil>real n / real_of_int d\<rceil> - 1) * d < int n"
proof -
  let ?a = "- int n"
  have "\<lceil>real n / real_of_int d\<rceil> = \<lceil>real_of_int (int n) / real_of_int d\<rceil>" by simp
  also have "\<dots> = - (?a div d)" by (rule ceiling_divide_eq_div)
  finally have c: "\<lceil>real n / real_of_int d\<rceil> = - (?a div d)" .
  have d0: "0 < d" using assms by simp
  have "?a = d * (?a div d) + ?a mod d" by simp
  moreover have "0 \<le> ?a mod d" "?a mod d < d" using d0 by simp_all
  ultimately have "d * (?a div d) \<le> ?a" "?a < d * (?a div d) + d" by linarith+
  then show "int n \<le> \<lceil>real n / real_of_int d\<rceil> * d"
    and "(\<lceil>real n / real_of_int d\<rceil> - 1) * d < int n"
    unfolding c by (simp_all add: algebra_simps)
qed

lemma build_where_page_limit:
  "build_where u (q\<lparr>q_page := p, q_limit := l\<rparr>) = build_where u q"
  by (simp add: build_where_def shouldIncludeAllSalesPersons_def Let_def)

text \<open>The response of an authenticated caller, with the page written out.\<close>

lemma getBookings_authenticated:
  assumes "truthy (req_user_role u)" and "unique_ids st"
  shows "getBookings lc st (Some u) q =
     successResponse
       \<lparr>result_bookings =
          map (enrich st)
            (js_slice (js_sort (compare_bookings lc (q_hasCollectionDate q = Some ''true''))
                         (booking_findMany st (build_where u q)))
               (skip q) (js_add (skip q) (pageSize q))),
        result_pagination =
          \<lparr>total = length (booking_findMany st (build_where u q)),
           page = pageNumber q, limit = pageSize q,
           totalPages = ceil_div (length (booking_findMany st (build_where u q))) (pageSize q)\<rparr>,
        result_summary =
          \<lparr>summary_total = length (booking_findMany st (build_where u q)),
           confirmed = length (filter (\<lambda>b. status b = ''CONFIRMED'')
                                 (booking_findMany st (build_where u q))),
           booked = length (filter (\<lambda>b. status b = ''BOOKED'')
                              (booking_findMany st (build_where u q))),
           tbc = length (filter (\<lambda>b. status b = ''TBC'')
                           (booking_findMany st (build_where u q))),
           cancelled = length (filter (\<lambda>b. status b = ''CANCELLED'')
                                 (booking_findMany st (build_where u q))),
           noAnswer = length (filter (\<lambda>b. status b = ''NO_ANSWER'')
                                (booking_findMany st (build_where u q))),
           wlmk = length (filter (\<lambda>b. status b = ''WLMK'')
                            (booking_findMany st (build_where u q))),
           videoCall = length (filter (\<lambda>b. status b = ''VIDEO_CALL'')
                                 (booking_findMany st (build_where u q)))\<rparr>\<rparr>
       ''Bookings retrieved successfully'' 200"
  using assms
  by (simp add: getBookings_def Let_def sortedBookings_page status_counts_filter
        booking_count_def booking_findMany_def)

subsection \<open>The summary of a listing\<close>

text \<open>
  C6. For an authenticated caller the summary of the response counts the rows of each
  status, and all rows, in the whole filtered set; the filter does not read \<open>page\<close> or
  \<open>limit\<close>, so the summary is the same for every page and page size.
\<close>

theorem summary_over_filtered_set:
  assumes "truthy (req_user_role u)"
  shows "map_option result_summary
           (response_data (getBookings lc st (Some u) (q\<lparr>q_page := p, q_limit := l\<rparr>)))
         = Some
             \<lparr>summary_total = length (booking_findMany st (build_where u q)),
              confirmed = length (filter (\<lambda>b. status b = ''CONFIRMED'')
                                    (booking_findMany st (build_where u q))),
              booked = length (filter (\<lambda>b. status b = ''BOOKED'')
                                 (booking_findMany st (build_where u q))),
              tbc = length (filter (\<lambda>b. status b = ''TBC'')
                              (booking_findMany st (build_where u q))),
              cancelled = length (filter (\<lambda>b. status b = ''CANCELLED'')
                                    (booking_findMany st (build_where u q))),
              noAnswer = length (filter (\<lambda>b. status b = ''NO_ANSWER'')
                                   (booking_findMany st (build_where u q))),
              wlmk = length (filter (\<lambda>b. status b = ''WLMK'')
                               (booking_findMany st (build_where u q))),
              videoCall = length (filter (\<lambda>b. status b = ''VIDEO_CALL'')
                                    (booking_findMany st (build_where u q)))\<rparr>"
  using assms
  by (simp add: getBookings_def Let_def status_counts_filter build_where_page_limit
        booking_count_def booking_findMany_def)

text \<open>Seven \<open>BOOKED\<close> rows among nine, asked for in pages of two: \<open>summary.booked\<close> is 7
  on the first page and on the third.\<close>

theorem summary_over_filtered_set_witness:
  "truthy (req_user_role admin) \<and>
   map_option (length \<circ> result_bookings)
     (response_data (getBookings case_collation store_seven_booked (Some admin)
        (plain_query\<lparr>q_page := Num 1, q_limit := Num 2\<rparr>))) = Some 2 \<and>
   map_option (booked \<circ> result_summary)
     (response_data (getBookings case_collation store_seven_booked (Some admin)
        (plain_query\<lparr>q_page := Num 1, q_limit := Num 2\<rparr>))) = Some 7 \<and>
   map_option (booked \<circ> result_summary)
     (response_data (getBookings case_collation store_seven_booked (Some admin)
        (plain_query\<lparr>q_page := Num 3, q_limit := Num 2\<rparr>))) = Some 7 \<and>
   map_option (summary_total \<circ> result_summary)
     (response_data (getBookings case_collation store_seven_booked (Some admin)
        (plain_query\<lparr>q_page := Num 1, q_limit := Num 2\<rparr>))) = Some 9"
proof -
  have a: "truthy (req_user_role admin)" by code_simp
  have n: "map_option (length \<circ> result_bookings)
     (response_data (getBookings case_collation store_seven_booked (Some admin)
        (plain_query\<lparr>q_page := Num 1, q_limit := Num 2\<rparr>))) = Some 2" by code_simp
  have t: "length (booking_findMany store_seven_booked (build_where admin plain_query)) = 9"
    by code_simp
  have b: "length (filter (\<lambda>b. status b = ''BOOKED'')
             (booking_findMany store_seven_booked (build_where admin plain_query))) = 7"
    by code_simp
  note s1 = summary_over_filtered_set
    [OF a, where st = store_seven_booked and q = plain_query and p = "Num 1" and l = "Num 2"
       and lc = case_collation]
  note s3 = summary_over_filtered_set
    [OF a, where st = store_seven_booked and q = plain_query and p = "Num 3" and l = "Num 2"
       and lc = case_collation]
  have c: "map_option (f \<circ> result_summary) x = map_option f (map_option result_summary x)"
    for f :: "summary \<Rightarrow> nat" and x
    by (simp add: option.map_comp)
  show ?thesis unfolding c s1 s3 using a n t b by simp
qed

subsection \<open>Row visibility of a sales person\<close>

lemma build_where_sales_person:
  assumes "req_user_role u = Some ''SALES_PERSON''" and "\<not> shouldIncludeAllSalesPersons q"
  shows "where_salesPersonId (build_where u q) = Some (req_user_id u)"
  using assms by (simp add: build_where_def Let_def)

lemma findMany_sales_person:
  assumes "where_salesPersonId w = Some s"
  shows "booking_findMany st w =
           filter (matches w) (filter (\<lambda>b. salesPersonId b = s) (bookings st))"
proof -
  have "matches w b \<longleftrightarrow> salesPersonId b = s \<and> matches w b" for b
    using assms by (auto simp: matches_def)
  then have "filter (matches w) (bookings st) =
             filter (\<lambda>b. salesPersonId b = s \<and> matches w b) (bookings st)" by simp
  then show ?thesis by (simp add: booking_findMany_def conj_commute)
qed

text \<open>
  C7. For a caller of role \<open>SALES_PERSON\<close>, when \<open>includeAllSalesPersons\<close> is not
  \<open>'true'\<close> or no location filter is given, every booking of the response has the caller's
  id as \<open>salesPersonId\<close>, whatever the other filters are; and a store that differs only in
  the bookings of other sales persons gives the same response.
\<close>

theorem sales_person_sees_own_rows:
  assumes "req_user_role u = Some ''SALES_PERSON''"
    and "q_includeAllSalesPersons q \<noteq> Some ''true'' \<or> \<not> truthy (q_locationId q)"
    and "unique_ids st"
  shows "(\<exists>r m. getBookings lc st (Some u) q = successResponse r m 200 \<and>
            list_all (\<lambda>row. salesPersonId (fst row) = req_user_id u) (result_bookings r)) \<and>
         (unique_ids st' \<and> locations st' = locations st \<and> users st' = users st \<and>
          filter (\<lambda>b. salesPersonId b = req_user_id u) (bookings st')
            = filter (\<lambda>b. salesPersonId b = req_user_id u) (bookings st)
          \<longrightarrow> getBookings lc st' (Some u) q = getBookings lc st (Some u) q)"
proof -
  have role: "truthy (req_user_role u)" using assms(1) by (simp add: truthy_def)
  have nall: "\<not> shouldIncludeAllSalesPersons q"
    using assms(2) by (auto simp: shouldIncludeAllSalesPersons_def)
  let ?w = "build_where u q"
  let ?c = "q_hasCollectionDate q = Some ''true''"
  note w = build_where_sales_person [OF assms(1) nall]
  have own: "salesPersonId b = req_user_id u" if "b \<in> set (booking_findMany st ?w)" for b
    using that w by (auto simp: booking_findMany_def matches_def)
  have "set (js_slice (js_sort (compare_bookings lc ?c) (booking_findMany st ?w))
               (skip q) (js_add (skip q) (pageSize q))) \<subseteq> set (booking_findMany st ?w)"
    using set_js_slice [of "js_sort (compare_bookings lc ?c) (booking_findMany st ?w)"]
    by (simp add: set_js_sort)
  then have 1: "list_all (\<lambda>row. salesPersonId (fst row) = req_user_id u)
                  (map (enrich st)
                     (js_slice (js_sort (compare_bookings lc ?c) (booking_findMany st ?w))
                        (skip q) (js_add (skip q) (pageSize q))))"
    using own by (auto simp: list_all_iff enrich_def)
  have 2: "getBookings lc st' (Some u) q = getBookings lc st (Some u) q"
    if h: "unique_ids st' \<and> locations st' = locations st \<and> users st' = users st \<and>
        filter (\<lambda>b. salesPersonId b = req_user_id u) (bookings st')
          = filter (\<lambda>b. salesPersonId b = req_user_id u) (bookings st)"
  proof -
    have f: "booking_findMany st' ?w = booking_findMany st ?w"
      using h by (simp add: findMany_sales_person [OF w])
    have e: "enrich st' = enrich st"
      using h by (intro ext) (simp add: enrich_def location_findUnique_def user_findUnique_def)
    from h have u': "unique_ids st'" by simp
    show ?thesis
      unfolding getBookings_authenticated [OF role u'] getBookings_authenticated [OF role assms(3)]
      by (simp only: f e)
  qed
  show ?thesis
    using 1 2 by (simp add: getBookings_authenticated [OF role assms(3)])
qed

text \<open>Caller \<open>u1\<close> gets only the rows \<open>s3\<close> and \<open>s1\<close>, from both stores.\<close>

theorem sales_person_sees_own_rows_witness:
  "req_user_role seller = Some ''SALES_PERSON'' \<and>
   q_includeAllSalesPersons plain_query \<noteq> Some ''true'' \<and>
   unique_ids store_two_sellers \<and> unique_ids store_one_seller \<and>
   map_option (map (\<lambda>row. (booking_id (fst row), salesPersonId (fst row))) \<circ> result_bookings)
     (response_data (getBookings case_collation store_two_sellers (Some seller) plain_query))
     = Some [(''s3'', ''u1''), (''s1'', ''u1'')] \<and>
   getBookings case_collation store_one_seller (Some seller) plain_query
     = getBookings case_collation store_two_sellers (Some seller) plain_query"
proof -
  have a1: "req_user_role seller = Some ''SALES_PERSON''" by code_simp
  have a2: "q_includeAllSalesPersons plain_query \<noteq> Some ''true''" by code_simp
  have a3: "unique_ids store_two_sellers" by code_simp
  have a4: "unique_ids store_one_seller" by code_simp
  have h: "locations store_one_seller = locations store_two_sellers \<and>
           users store_one_seller = users store_two_sellers \<and>
           filter (\<lambda>b. salesPersonId b = req_user_id seller) (bookings store_one_seller)
             = filter (\<lambda>b. salesPersonId b = req_user_id seller) (bookings store_two_sellers)"
    by code_simp
  have v: "map_option
             (map (\<lambda>row. (booking_id (fst row), salesPersonId (fst row))) \<circ> result_bookings)
             (response_data (getBookings case_collation store_two_sellers (Some seller) plain_query))
           = Some [(''s3'', ''u1''), (''s1'', ''u1'')]" by code_simp
  from sales_person_sees_own_rows [OF a1 _ a3, where q = plain_query and st' = store_one_seller
         and lc = case_collation]
  have "getBookings case_collation store_one_seller (Some seller) plain_query
          = getBookings case_collation store_two_sellers (Some seller) plain_query"
    using a2 a4 h by simp
  then show ?thesis using a1 a2 a3 a4 v by simp
qed

subsection \<open>The order of a listing\<close>

lemma fits_nonempty: "fits pat s \<Longrightarrow> pat \<noteq> [] \<Longrightarrow> s \<noteq> []"
  by (cases pat; cases s) simp_all

lemma formatted_date_normal: "formatted date_format v \<Longrightarrow> v \<noteq> Some []"
  by (auto simp: formatted_def date_format_def)

lemma formatted_time_normal: "formatted time_format v \<Longrightarrow> v \<noteq> Some []"
  by (auto simp: formatted_def time_format_def)

lemma truthy_normal: "v \<noteq> Some [] \<Longrightarrow> truthy v \<longleftrightarrow> v \<noteq> None"
  by (cases v) (simp_all add: truthy_def)

lemma js_or_coalesce: "a \<noteq> Some [] \<Longrightarrow> js_or a b = coalesce a b"
  by (cases a) (simp_all add: js_or_def coalesce_def truthy_def)

lemma coalesce_normal: "a \<noteq> Some [] \<Longrightarrow> b \<noteq> Some [] \<Longrightarrow> coalesce a b \<noteq> Some []"
  by (cases a) (simp_all add: coalesce_def)

lemma sort_rank_formatted:
  assumes "compared_columns_formatted c b"
  shows "sort_rank c b =
           (if effective_date c b = None then (True, [], False, [])
            else if effective_time c b = None then (False, the (effective_date c b), True, [])
            else (False, the (effective_date c b), False, the (effective_time c b)))"
proof -
  have d: "(if c then collectionDate b else js_or (specialRequestDate b) (sessionDate b))
           = effective_date c b"
    using assms
    by (simp add: effective_date_def compared_columns_formatted_def js_or_coalesce
          formatted_date_normal)
  have t: "(if c then collectionTime b else js_or (specialRequestTime b) (sessionTime b))
           = effective_time c b"
    using assms
    by (simp add: effective_time_def compared_columns_formatted_def js_or_coalesce
          formatted_time_normal)
  have dn: "effective_date c b \<noteq> Some []"
    using assms
    by (simp add: effective_date_def compared_columns_formatted_def coalesce_normal
          formatted_date_normal)
  have tn: "effective_time c b \<noteq> Some []"
    using assms
    by (simp add: effective_time_def compared_columns_formatted_def coalesce_normal
          formatted_time_normal)
  have td: "truthy (effective_date c b) \<longleftrightarrow> effective_date c b \<noteq> None"
    by (rule truthy_normal [OF dn])
  have tt: "truthy (effective_time c b) \<longleftrightarrow> effective_time c b \<noteq> None"
    by (rule truthy_normal [OF tn])
  show ?thesis
    unfolding sort_rank_def d t Let_def td tt by simp
qed

lemma rank_le_key_le:
  assumes "compared_columns_formatted c a" and "compared_columns_formatted c b"
  shows "sort_rank c a \<le> sort_rank c b \<longleftrightarrow> key_le c a b"
  unfolding sort_rank_formatted [OF assms(1)] sort_rank_formatted [OF assms(2)]
  by (auto simp: key_le_def nulls_last_le_def less_eq_prod_def split: option.splits)

lemma js_sort_key_le:
  assumes "collates_format lc date_format" and "collates_format lc time_format"
    and "list_all (compared_columns_formatted c) xs"
  shows "sorted_wrt (key_le c) (js_sort (compare_bookings lc c) xs)"
proof -
  let ?ys = "js_sort (compare_bookings lc c) xs"
  have "sorted_wrt (\<lambda>a b. sort_rank c a \<le> sort_rank c b) ?ys"
    using sorted_js_sort [OF assms] by (simp add: sorted_map)
  moreover have "\<And>a b. a \<in> set ?ys \<Longrightarrow> b \<in> set ?ys \<Longrightarrow>
      sort_rank c a \<le> sort_rank c b \<Longrightarrow> key_le c a b"
    using assms(3) by (simp add: set_js_sort list_all_iff rank_le_key_le)
  ultimately show ?thesis by (rule sorted_wrt_mono_rel [rotated])
qed

text \<open>The example collation orders the two formats as the code units do.\<close>

lemma upper_char_digit: "is_digit c \<Longrightarrow> upper_char c = c"
  by (auto simp: is_digit_def upper_char_def less_eq_char_def)

lemma fits_toUpperCase:
  "fits pat s \<Longrightarrow> \<forall>p\<in>set pat. p = CHR ''d'' \<or> upper_char p = p \<Longrightarrow> toUpperCase s = s"
proof (induction pat s rule: fits.induct)
  case (2 p ps c cs)
  then have "fits ps cs" and c: "if p = CHR ''d'' then is_digit c else c = p" by simp_all
  moreover have "upper_char c = c"
    using c "2.prems"(2) by (cases "p = CHR ''d''") (auto simp: upper_char_digit)
  ultimately show ?case using "2.IH" "2.prems"(2) by (simp add: toUpperCase_def)
qed (simp_all add: toUpperCase_def)

lemma case_collation_fixed:
  assumes "toUpperCase a = a" and "toUpperCase b = b"
  shows "case_collation a b \<le> 0 \<longleftrightarrow> a \<le> b"
  using assms by (auto simp: case_collation_def)

lemma case_collation_dates: "collates_format case_collation date_format"
proof -
  have p: "\<forall>p\<in>set date_format. p = CHR ''d'' \<or> upper_char p = p"
    by (simp add: date_format_def upper_char_def)
  show ?thesis
    unfolding collates_format_def
    by (intro allI impI case_collation_fixed) (simp_all add: fits_toUpperCase [OF _ p])
qed

lemma case_collation_times: "collates_format case_collation time_format"
proof -
  have p: "\<forall>p\<in>set time_format. p = CHR ''d'' \<or> upper_char p = p"
    by (simp add: time_format_def upper_char_def)
  show ?thesis
    unfolding collates_format_def
    by (intro allI impI case_collation_fixed) (simp_all add: fits_toUpperCase [OF _ p])
qed

text \<open>
  C3 (amended). For an authenticated caller over a store with unique booking ids, when the
  date and time columns that the listing compares hold, in every row that passes the
  filter, null or a zero-padded \<open>YYYY-MM-DD\<close> date and \<open>HH:MM\<close> time, and the collation of
  the host orders such strings as the code units do: the bookings of the response are
  sorted ascending by the effective key, which is the collection date and time when
  \<open>hasCollectionDate\<close> is \<open>'true'\<close>, otherwise the special-request date or else the session
  date, and the special-request time or else the session time. A row without an effective
  date comes after every row with one; dates, then times, compare as strings; a row
  without a time comes after the rows of the same date that have one.
\<close>

theorem listing_sorted_by_effective_key:
  assumes "truthy (req_user_role u)" and "unique_ids st"
    and "collates_format lc date_format" and "collates_format lc time_format"
    and "list_all (compared_columns_formatted (q_hasCollectionDate q = Some ''true''))
           (booking_findMany st (build_where u q))"
  shows "\<exists>r m. getBookings lc st (Some u) q = successResponse r m 200 \<and>
           sorted_wrt (key_le (q_hasCollectionDate q = Some ''true''))
             (map fst (result_bookings r))"
proof -
  let ?c = "q_hasCollectionDate q = Some ''true''"
  have "sorted_wrt (key_le ?c)
          (js_slice (js_sort (compare_bookings lc ?c) (booking_findMany st (build_where u q)))
             (skip q) (js_add (skip q) (pageSize q)))"
    by (intro sorted_wrt_js_slice js_sort_key_le assms(3,4,5))
  moreover have "map fst (map (enrich st) rows) = rows" for rows
    by (induction rows) (simp_all add: enrich_def)
  ultimately show ?thesis
    by (simp add: getBookings_authenticated [OF assms(1,2)])
qed

text \<open>
  The bookings A (2024-01-02, 09:00), B (2024-01-02, 08:00) and C (no date) are listed as
  B, A, C; a special-request slot of 2024-01-01 puts D, whose session is on 2024-01-05,
  first, and N, of 2024-01-02 without a time, follows A.
\<close>

theorem listing_sorted_by_effective_key_witness:
  "truthy (req_user_role admin) \<and> unique_ids store_abc \<and>
   collates_format case_collation date_format \<and> collates_format case_collation time_format \<and>
   list_all (compared_columns_formatted False)
     (booking_findMany store_abc (build_where admin plain_query)) \<and>
   map_option (map (booking_id \<circ> fst) \<circ> result_bookings)
     (response_data (getBookings case_collation store_abc (Some admin) plain_query))
     = Some [''B'', ''A'', ''C''] \<and>
   sorted_wrt (key_le False)
     [slot_booking ''B'' (Some ''2024-01-02'') (Some ''08:00''),
      slot_booking ''A'' (Some ''2024-01-02'') (Some ''09:00''),
      slot_booking ''C'' None None] \<and>
   map_option (map (booking_id \<circ> fst) \<circ> result_bookings)
     (response_data (getBookings case_collation store_special (Some admin) plain_query))
     = Some [''D'', ''B'', ''A'', ''N'', ''C'']"
proof -
  have a1: "truthy (req_user_role admin)" by code_simp
  have a2: "unique_ids store_abc" by code_simp
  have c: "(q_hasCollectionDate plain_query = Some ''true'') = False" by code_simp
  have a5: "list_all (compared_columns_formatted False)
              (booking_findMany store_abc (build_where admin plain_query))" by code_simp
  have a5': "list_all (compared_columns_formatted (q_hasCollectionDate plain_query = Some ''true''))
              (booking_findMany store_abc (build_where admin plain_query))"
    unfolding c by (rule a5)
  have v: "map_option (map fst \<circ> result_bookings)
             (response_data (getBookings case_collation store_abc (Some admin) plain_query))
           = Some [slot_booking ''B'' (Some ''2024-01-02'') (Some ''08:00''),
                   slot_booking ''A'' (Some ''2024-01-02'') (Some ''09:00''),
                   slot_booking ''C'' None None]" by code_simp
  have i: "map_option (map (booking_id \<circ> fst) \<circ> result_bookings)
     (response_data (getBookings case_collation store_abc (Some admin) plain_query))
     = Some [''B'', ''A'', ''C'']"
    by code_simp
  have s: "map_option (map (booking_id \<circ> fst) \<circ> result_bookings)
     (response_data (getBookings case_collation store_special (Some admin) plain_query))
     = Some [''D'', ''B'', ''A'', ''N'', ''C'']" by code_simp
  from listing_sorted_by_effective_key
         [OF a1 a2 case_collation_dates case_collation_times a5']
  obtain r m where
    r: "getBookings case_collation store_abc (Some admin) plain_query = successResponse r m 200"
    and srt: "sorted_wrt (key_le (q_hasCollectionDate plain_query = Some ''true''))
                (map fst (result_bookings r))" by blast
  from v r have "map fst (result_bookings r) =
      [slot_booking ''B'' (Some ''2024-01-02'') (Some ''08:00''),
       slot_booking ''A'' (Some ''2024-01-02'') (Some ''09:00''),
       slot_booking ''C'' None None]" by simp
  with srt c have "sorted_wrt (key_le False)
     [slot_booking ''B'' (Some ''2024-01-02'') (Some ''08:00''),
      slot_booking ''A'' (Some ''2024-01-02'') (Some ''09:00''),
      slot_booking ''C'' None None]" by simp
  then show ?thesis
    using a1 a2 a5 i s case_collation_dates case_collation_times by simp
qed

text \<open>
  C3 as stated fails: the collection columns are written without validation and the
  handler sorts by the collation of the host, not by code units. For two rows collected on
  2024-06-01, at \<open>10:30 AM\<close> and at \<open>10:30 am\<close>, \<open>'10:30 AM'.localeCompare('10:30 am')\<close> is
  positive, the listing by collection date puts \<open>10:30 am\<close> first, and that order is not
  ascending by the time strings.
\<close>

theorem collation_order_counterexample:
  "case_collation ''10:30 AM'' ''10:30 am'' = 1 \<and>
   map_option (map (\<lambda>row. (booking_id (fst row), collectionTime (fst row))) \<circ> result_bookings)
     (response_data (getBookings case_collation store_am_pm (Some admin) collection_query))
     = Some [(''Y'', Some ''10:30 am''), (''X'', Some ''10:30 AM'')] \<and>
   \<not> sorted_wrt (key_le True)
       [collected ''Y'' ''2024-06-01'' ''10:30 am'', collected ''X'' ''2024-06-01'' ''10:30 AM'']"
  by code_simp

subsection \<open>The page of a listing\<close>

lemma skip_integers:
  assumes "pageNumber q = Num p" and "pageSize q = Num l"
  shows "skip q = Num ((p - 1) * l)" and "js_add (skip q) (pageSize q) = Num (p * l)"
proof -
  show s: "skip q = Num ((p - 1) * l)"
    using assms by (simp add: skip_def js_sub_def)
  show "js_add (skip q) (pageSize q) = Num (p * l)"
    using assms(2) unfolding s by (simp add: algebra_simps)
qed

text \<open>
  A page size beyond the range of a double: \<open>parseInt\<close> gives \<open>Infinity\<close>, \<open>skip\<close> is
  \<open>0 * Infinity\<close>, which is NaN, the slice from NaN to NaN is empty and the page count is 0.
\<close>

lemma infinite_limit_empty_page:
  "skip (plain_query\<lparr>q_limit := Infinity\<rparr>) = NaN \<and>
   map_option (\<lambda>r. (map (booking_id \<circ> fst) (result_bookings r),
                     limit (result_pagination r), totalPages (result_pagination r)))
     (response_data (getBookings case_collation store_five (Some admin)
        (plain_query\<lparr>q_limit := Infinity\<rparr>)))
     = Some ([], Infinity, Num 0)"
  by code_simp

text \<open>
  C2 (amended). For an authenticated caller over a store with unique booking ids, and a
  page number and a page size that are integers of at least 1 after defaulting, with their
  product and the number of bookings among the safe integers (where the arithmetic of the
  handler is exact): the rows of the response are the slice
  \<open>[(page - 1) * limit, page * limit)\<close> of the filtered set sorted as a whole, in that
  order, their ids are the same slice of the sorted id sequence, and \<open>totalPages\<close> is
  \<open>ceil (total / limit)\<close>, the least number of pages of that size that hold all rows.
\<close>

theorem page_is_slice_of_sorted:
  assumes "truthy (req_user_role u)" and "unique_ids st"
    and "pageNumber q = Num p" and "pageSize q = Num l"
    and "1 \<le> p" and "1 \<le> l" and "p * l \<le> max_safe_integer"
    and "int (length (bookings st)) \<le> max_safe_integer"
  shows "\<exists>r m. getBookings lc st (Some u) q = successResponse r m 200 \<and>
           map fst (result_bookings r) =
             slice_spec
               (js_sort (compare_bookings lc (q_hasCollectionDate q = Some ''true''))
                  (booking_findMany st (build_where u q)))
               ((p - 1) * l) (p * l) \<and>
           map (booking_id \<circ> fst) (result_bookings r) =
             slice_spec
               (sortedBookingIds lc st (build_where u q) (q_hasCollectionDate q = Some ''true''))
               ((p - 1) * l) (p * l) \<and>
           total (result_pagination r) = length (booking_findMany st (build_where u q)) \<and>
           page (result_pagination r) = Num p \<and> limit (result_pagination r) = Num l \<and>
           totalPages (result_pagination r) =
             Num \<lceil>real (total (result_pagination r)) / real_of_int l\<rceil> \<and>
           int (total (result_pagination r))
             \<le> \<lceil>real (total (result_pagination r)) / real_of_int l\<rceil> * l \<and>
           (\<lceil>real (total (result_pagination r)) / real_of_int l\<rceil> - 1) * l
             < int (total (result_pagination r))"
proof -
  let ?c = "q_hasCollectionDate q = Some ''true''"
  let ?sorted = "js_sort (compare_bookings lc ?c) (booking_findMany st (build_where u q))"
  let ?lo = "(p - 1) * l"
  let ?hi = "p * l"
  have lo: "0 \<le> ?lo" using assms(5,6) by simp
  have hi: "0 \<le> ?hi" using assms(5,6) by simp
  have rows: "js_slice ?sorted (skip q) (js_add (skip q) (pageSize q)) = slice_spec ?sorted ?lo ?hi"
  proof -
    have "js_slice ?sorted (skip q) (js_add (skip q) (pageSize q))
          = js_slice ?sorted (skip q) (Num ?hi)"
      by (simp only: skip_integers(2) [OF assms(3,4)])
    also have "\<dots> = js_slice ?sorted (Num ?lo) (Num ?hi)"
      by (simp only: skip_integers(1) [OF assms(3,4)])
    also have "\<dots> = slice_spec ?sorted ?lo ?hi" by (rule js_slice_spec [OF lo hi])
    finally show ?thesis .
  qed
  have f: "fst (enrich st x) = x" for x by (simp add: enrich_def)
  have m: "map fst (map (enrich st) xs) = xs" for xs
    by (induction xs) (simp_all add: f)
  have ids: "map (booking_id \<circ> fst) (map (enrich st) (slice_spec ?sorted ?lo ?hi))
             = slice_spec (sortedBookingIds lc st (build_where u q) ?c) ?lo ?hi"
  proof -
    have "map (booking_id \<circ> fst) (map (enrich st) (slice_spec ?sorted ?lo ?hi))
          = map booking_id (slice_spec ?sorted ?lo ?hi)"
      by (simp add: comp_def f)
    also have "\<dots> = map booking_id (js_slice ?sorted (Num ?lo) (Num ?hi))"
      by (simp add: js_slice_spec [OF lo hi])
    also have "\<dots> = js_slice (map booking_id ?sorted) (Num ?lo) (Num ?hi)"
      by (simp add: js_slice_map)
    also have "\<dots> = slice_spec (map booking_id ?sorted) ?lo ?hi"
      by (rule js_slice_spec [OF lo hi])
    finally show ?thesis by (simp add: sortedBookingIds_def)
  qed
  have l0: "l \<noteq> 0" using assms(6) by simp
  show ?thesis
    unfolding getBookings_authenticated [OF assms(1,2)] rows
    using m ids ceil_div_real [OF l0] ceiling_pages [OF assms(6)] assms(3,4) by simp
qed

text \<open>Five rows, page 2 of size 2: the third and the fourth row of the sorted sequence,
  and three pages.\<close>

theorem page_is_slice_of_sorted_witness:
  "truthy (req_user_role admin) \<and> unique_ids store_five \<and>
   pageNumber (plain_query\<lparr>q_page := Num 2, q_limit := Num 2\<rparr>) = Num 2 \<and>
   pageSize (plain_query\<lparr>q_page := Num 2, q_limit := Num 2\<rparr>) = Num 2 \<and>
   2 * 2 \<le> max_safe_integer \<and> int (length (bookings store_five)) \<le> max_safe_integer \<and>
   sortedBookingIds case_collation store_five
     (build_where admin (plain_query\<lparr>q_page := Num 2, q_limit := Num 2\<rparr>)) False
     = [''p1'', ''p2'', ''p3'', ''p4'', ''p5''] \<and>
   map_option (map (booking_id \<circ> fst) \<circ> result_bookings)
     (response_data (getBookings case_collation store_five (Some admin)
        (plain_query\<lparr>q_page := Num 2, q_limit := Num 2\<rparr>))) = Some [''p3'', ''p4''] \<and>
   slice_spec [''p1'', ''p2'', ''p3'', ''p4'', ''p5''] ((2 - 1) * 2) (2 * 2) = [''p3'', ''p4''] \<and>
   map_option (totalPages \<circ> result_pagination)
     (response_data (getBookings case_collation store_five (Some admin)
        (plain_query\<lparr>q_page := Num 2, q_limit := Num 2\<rparr>))) = Some (Num 3)"
proof -
  let ?q = "plain_query\<lparr>q_page := Num 2, q_limit := Num 2\<rparr>"
  have a1: "truthy (req_user_role admin)" by code_simp
  have a2: "unique_ids store_five" by code_simp
  have p: "pageNumber ?q = Num 2" by code_simp
  have l: "pageSize ?q = Num 2" by code_simp
  have a5: "(1::int) \<le> 2" by simp
  have a7: "(2::int) * 2 \<le> max_safe_integer" by (simp add: max_safe_integer_def)
  have a8: "int (length (bookings store_five)) \<le> max_safe_integer"
    by (simp add: max_safe_integer_def store_five_def)
  have c: "(q_hasCollectionDate ?q = Some ''true'') = False" by code_simp
  have s: "sortedBookingIds case_collation store_five (build_where admin ?q) False
           = [''p1'', ''p2'', ''p3'', ''p4'', ''p5'']" by code_simp
  have sl: "slice_spec [''p1'', ''p2'', ''p3'', ''p4'', ''p5''] ((2 - 1) * 2) (2 * 2)
            = [''p3'', ''p4'']" by code_simp
  have tp: "map_option (totalPages \<circ> result_pagination)
              (response_data (getBookings case_collation store_five (Some admin) ?q))
            = Some (Num 3)" by code_simp
  from page_is_slice_of_sorted [OF a1 a2 p l a5 a5 a7 a8, where lc = case_collation]
  obtain r m where
    r: "getBookings case_collation store_five (Some admin) ?q = successResponse r m 200"
    and ids: "map (booking_id \<circ> fst) (result_bookings r) =
                slice_spec (sortedBookingIds case_collation store_five (build_where admin ?q)
                              (q_hasCollectionDate ?q = Some ''true''))
                  ((2 - 1) * 2) (2 * 2)"
    by blast
  have "map (booking_id \<circ> fst) (result_bookings r) = [''p3'', ''p4'']"
    using ids unfolding c s sl .
  then have "map_option (map (booking_id \<circ> fst) \<circ> result_bookings)
               (response_data (getBookings case_collation store_five (Some admin) ?q))
             = Some [''p3'', ''p4'']"
    using r by simp
  then show ?thesis using a1 a2 p l a7 a8 s sl tp by simp
qed

text \<open>
  C2 as stated fails where the page size or the page number is negative; the handler
  validates neither. With \<open>limit=-2\<close> on page 1 it returns the first three of five rows
  (\<open>slice(0, -2)\<close> counts from the end), and with \<open>page=-1\<close> and \<open>limit=2\<close> it returns
  the second and third row (\<open>slice(-4, -2)\<close>), while the slices \<open>[0, -2)\<close> and
  \<open>[-4, -2)\<close> of the sorted id sequence are empty.
\<close>

theorem page_negative_limit_counterexample:
  "pageNumber (plain_query\<lparr>q_page := Num 1, q_limit := Num (- 2)\<rparr>) = Num 1 \<and>
   pageSize (plain_query\<lparr>q_page := Num 1, q_limit := Num (- 2)\<rparr>) = Num (- 2) \<and>
   map_option (map (booking_id \<circ> fst) \<circ> result_bookings)
     (response_data (getBookings case_collation store_five (Some admin)
        (plain_query\<lparr>q_page := Num 1, q_limit := Num (- 2)\<rparr>)))
     = Some [''p1'', ''p2'', ''p3''] \<and>
   slice_spec
     (sortedBookingIds case_collation store_five
        (build_where admin (plain_query\<lparr>q_page := Num 1, q_limit := Num (- 2)\<rparr>)) False)
     ((1 - 1) * (- 2)) (1 * (- 2))
     = [] \<and>
   pageNumber (plain_query\<lparr>q_page := Num (- 1), q_limit := Num 2\<rparr>) = Num (- 1) \<and>
   pageSize (plain_query\<lparr>q_page := Num (- 1), q_limit := Num 2\<rparr>) = Num 2 \<and>
   map_option (map (booking_id \<circ> fst) \<circ> result_bookings)
     (response_data (getBookings case_collation store_five (Some admin)
        (plain_query\<lparr>q_page := Num (- 1), q_limit := Num 2\<rparr>)))
     = Some [''p2'', ''p3''] \<and>
   slice_spec
     (sortedBookingIds case_collation store_five
        (build_where admin (plain_query\<lparr>q_page := Num (- 1), q_limit := Num 2\<rparr>)) False)
     ((- 1 - 1) * 2) (- 1 * 2)
     = []"
  by code_simp

subsection \<open>Creating a booking\<close>

lemma createBooking_with_cases:
  "createBooking_with missing errors user body newId st = (resp, st') \<Longrightarrow>
   (status_code resp = 400 \<and> response_data resp = None \<and> st' = st) \<or>
   (\<exists>b. resp = successResponse b ''Booking created successfully'' 201 \<and>
        st' = st\<lparr>bookings := bookings st @ [b]\<rparr> \<and>
        errors = [] \<and>
        booking_id b = newId \<and>
        phoneNumber b = strip_non_digits (cb_phoneNumber body) \<and>
        length (strip_non_digits (cb_phoneNumber body)) = 11 \<and>
        salesPersonId b = req_user_id user \<and>
        status b = bookingStatus (cb_status body) \<and>
        sessionDate b = or_null (field_value (cb_sessionDate body)) \<and>
        sessionTime b = or_null (field_value (cb_sessionTime body)) \<and>
        specialRequestDate b = or_null (field_value (cb_specialRequestDate body)) \<and>
        specialRequestTime b = or_null (field_value (cb_specialRequestTime body)) \<and>
        collectionDate b = None \<and> collectionTime b = None \<and>
        (bookingStatus (cb_status body) = ''TBC'' \<or> \<not> missing body))"
  by (auto simp: createBooking_with_def Let_def split: if_splits)


lemma or_null_truthy: "truthy v \<Longrightarrow> or_null v = v"
  by (simp add: or_null_def js_or_def)

lemma or_null_normal: "or_null v \<noteq> Some []"
  by (cases v) (simp_all add: or_null_def js_or_def truthy_def)

lemma digits_strip: "list_all is_digit (strip_non_digits s)"
  by (simp add: strip_non_digits_def list_all_iff)

lemma slot_missing_given:
  "\<not> slot_missing body \<Longrightarrow>
     (field_truthy (cb_sessionDate body) \<and> field_truthy (cb_sessionTime body)) \<or>
     (field_truthy (cb_specialRequestDate body) \<and> field_truthy (cb_specialRequestTime body))"
  by (auto simp: slot_missing_def hasRegularSession_def hasSpecialRequest_def both_given_def)

lemma slot_missing_controller_given:
  "\<not> slot_missing_controller body \<Longrightarrow>
     (field_truthy (cb_sessionDate body) \<and> field_truthy (cb_sessionTime body)) \<or>
     (field_truthy (cb_specialRequestDate body) \<and> field_truthy (cb_specialRequestTime body))"
  by (simp add: slot_missing_controller_def)

lemma createBooking_with_slot:
  assumes given: "\<And>body. \<not> missing body \<Longrightarrow>
     (field_truthy (cb_sessionDate body) \<and> field_truthy (cb_sessionTime body)) \<or>
     (field_truthy (cb_specialRequestDate body) \<and> field_truthy (cb_specialRequestTime body))"
  shows "(request_breaks_slot_rule body \<longrightarrow>
            status_code (fst (createBooking_with missing errors user body newId st)) = 400 \<and>
            snd (createBooking_with missing errors user body newId st) = st) \<and>
         (fst (createBooking_with missing errors user body newId st) = successResponse b m c \<longrightarrow>
            slot_invariant b \<and>
            snd (createBooking_with missing errors user body newId st)
              = st\<lparr>bookings := bookings st @ [b]\<rparr>) \<and>
         (list_all slot_invariant (bookings st) \<longrightarrow>
            list_all slot_invariant
              (bookings (snd (createBooking_with missing errors user body newId st))))"
proof -
  obtain resp st' where r: "createBooking_with missing errors user body newId st = (resp, st')"
    by (cases "createBooking_with missing errors user body newId st")
  from createBooking_with_cases [OF r]
  show ?thesis
  proof
    assume "status_code resp = 400 \<and> response_data resp = None \<and> st' = st"
    then show ?thesis using r by auto
  next
    assume "\<exists>b. resp = successResponse b ''Booking created successfully'' 201 \<and>
        st' = st\<lparr>bookings := bookings st @ [b]\<rparr> \<and>
        errors = [] \<and>
        booking_id b = newId \<and>
        phoneNumber b = strip_non_digits (cb_phoneNumber body) \<and>
        length (strip_non_digits (cb_phoneNumber body)) = 11 \<and>
        salesPersonId b = req_user_id user \<and>
        status b = bookingStatus (cb_status body) \<and>
        sessionDate b = or_null (field_value (cb_sessionDate body)) \<and>
        sessionTime b = or_null (field_value (cb_sessionTime body)) \<and>
        specialRequestDate b = or_null (field_value (cb_specialRequestDate body)) \<and>
        specialRequestTime b = or_null (field_value (cb_specialRequestTime body)) \<and>
        collectionDate b = None \<and> collectionTime b = None \<and>
        (bookingStatus (cb_status body) = ''TBC'' \<or> \<not> missing body)"
    then obtain nb where nb: "resp = successResponse nb ''Booking created successfully'' 201"
      "st' = st\<lparr>bookings := bookings st @ [nb]\<rparr>"
      "status nb = bookingStatus (cb_status body)"
      "sessionDate nb = or_null (field_value (cb_sessionDate body))"
      "sessionTime nb = or_null (field_value (cb_sessionTime body))"
      "specialRequestDate nb = or_null (field_value (cb_specialRequestDate body))"
      "specialRequestTime nb = or_null (field_value (cb_specialRequestTime body))"
      "bookingStatus (cb_status body) = ''TBC'' \<or> \<not> missing body"
      by blast
    have inv: "slot_invariant nb"
    proof (cases "bookingStatus (cb_status body) = ''TBC''")
      case True
      then show ?thesis using nb(3) by (simp add: slot_invariant_def)
    next
      case False
      then have "\<not> missing body" using nb(8) by simp
      from given [OF this] show ?thesis
        using nb(4-7) by (auto simp: slot_invariant_def field_truthy_def or_null_truthy)
    qed
    have nobreak: "\<not> request_breaks_slot_rule body"
      using nb(8) given [of body] by (auto simp: request_breaks_slot_rule_def)
    show ?thesis using r nb(1,2) inv nobreak by auto
  qed
qed

text \<open>
  C8 (amended). In both copies of \<open>createBooking\<close>: a request that breaks the slot rule
  (status other than TBC, neither the session date and time nor the special-request date
  and time both given as non-empty strings) is answered 400 and the store is unchanged;
  a booking that is created satisfies the slot rule; and creating keeps the rule for the
  bookings already stored.
\<close>

theorem create_enforces_slot_rule:
  "(request_breaks_slot_rule body \<longrightarrow>
      status_code (fst (createBooking errors user body newId st)) = 400 \<and>
      snd (createBooking errors user body newId st) = st \<and>
      status_code (fst (createBooking_controller errors user body newId st)) = 400 \<and>
      snd (createBooking_controller errors user body newId st) = st) \<and>
   (fst (createBooking errors user body newId st) = successResponse b m c \<longrightarrow>
      slot_invariant b \<and>
      snd (createBooking errors user body newId st) = st\<lparr>bookings := bookings st @ [b]\<rparr>) \<and>
   (fst (createBooking_controller errors user body newId st) = successResponse b' m' c' \<longrightarrow>
      slot_invariant b' \<and>
      snd (createBooking_controller errors user body newId st)
        = st\<lparr>bookings := bookings st @ [b']\<rparr>) \<and>
   (list_all slot_invariant (bookings st) \<longrightarrow>
      list_all slot_invariant (bookings (snd (createBooking errors user body newId st))) \<and>
      list_all slot_invariant
        (bookings (snd (createBooking_controller errors user body newId st))))"
  using createBooking_with_slot [of slot_missing body errors user newId st b m c,
          OF slot_missing_given]
    createBooking_with_slot [of slot_missing_controller body errors user newId st b' m' c',
          OF slot_missing_controller_given]
  by (simp add: createBooking_def createBooking_controller_def)


text \<open>
  A request without a slot is answered 400 by both copies; the request with a session on
  2024-05-01 at 10:00 is stored, and the stored booking satisfies the rule.
\<close>

theorem create_enforces_slot_rule_witness:
  "request_breaks_slot_rule slotless_request \<and>
   status_code (fst (createBooking [] seller slotless_request ''n1'' seller_one_store)) = 400 \<and>
   snd (createBooking [] seller slotless_request ''n1'' seller_one_store) = seller_one_store \<and>
   status_code (fst (createBooking_controller [] seller slotless_request ''n1'' seller_one_store))
     = 400 \<and>
   fst (createBooking [] seller create_request ''n1'' seller_one_store)
     = successResponse created_booking ''Booking created successfully'' 201 \<and>
   fst (createBooking_controller [] seller create_request ''n1'' seller_one_store)
     = successResponse created_booking ''Booking created successfully'' 201 \<and>
   slot_invariant created_booking \<and>
   bookings (snd (createBooking [] seller create_request ''n1'' seller_one_store))
     = [sold_by ''s1'' ''u1'' ''2024-03-02'', created_booking] \<and>
   list_all slot_invariant (bookings seller_one_store) \<and>
   list_all slot_invariant
     (bookings (snd (createBooking [] seller create_request ''n1'' seller_one_store)))"
proof -
  have h1: "request_breaks_slot_rule slotless_request" by code_simp
  have h2: "fst (createBooking [] seller create_request ''n1'' seller_one_store)
              = successResponse created_booking ''Booking created successfully'' 201"
    by code_simp
  have h3: "fst (createBooking_controller [] seller create_request ''n1'' seller_one_store)
              = successResponse created_booking ''Booking created successfully'' 201"
    by code_simp
  have h4: "list_all slot_invariant (bookings seller_one_store)" by code_simp
  have e: "bookings seller_one_store = [sold_by ''s1'' ''u1'' ''2024-03-02'']"
    by (simp add: seller_one_store_def)
  note bad = create_enforces_slot_rule
    [where body = slotless_request and errors = "[]" and user = seller and newId = "''n1''"
       and st = seller_one_store]
  note good = create_enforces_slot_rule
    [where body = create_request and errors = "[]" and user = seller and newId = "''n1''"
       and st = seller_one_store and b = created_booking
       and m = "''Booking created successfully''" and c = 201]
  have "status_code (fst (createBooking [] seller slotless_request ''n1'' seller_one_store)) = 400"
    and "snd (createBooking [] seller slotless_request ''n1'' seller_one_store) = seller_one_store"
    and "status_code
           (fst (createBooking_controller [] seller slotless_request ''n1'' seller_one_store)) = 400"
    using bad h1 by simp_all
  moreover have "slot_invariant created_booking"
    and "snd (createBooking [] seller create_request ''n1'' seller_one_store)
           = seller_one_store\<lparr>bookings := bookings seller_one_store @ [created_booking]\<rparr>"
    and "list_all slot_invariant
           (bookings (snd (createBooking [] seller create_request ''n1'' seller_one_store)))"
    using good h2 h4 by simp_all
  ultimately show ?thesis using h1 h2 h3 h4 e by simp
qed

text \<open>
  C8 as stated fails: \<open>updateBooking\<close> with the body \<open>{status: 'BOOKED'}\<close> on a TBC booking
  without dates, and \<open>allocateStudioNumber\<close> on the same booking, both answer 200 and store
  a booking whose status is not TBC and which has no slot.
\<close>

theorem update_breaks_slot_rule_counterexample:
  "list_all slot_invariant (bookings store_tbc) \<and>
   status_code (fst (updateBooking [] admin ''t1'' (empty_update\<lparr>ub_status := Str ''BOOKED''\<rparr>)
                       store_tbc)) = 200 \<and>
   map (\<lambda>b. (status b, sessionDate b, sessionTime b, specialRequestDate b, specialRequestTime b))
     (bookings (snd (updateBooking [] admin ''t1'' (empty_update\<lparr>ub_status := Str ''BOOKED''\<rparr>)
                       store_tbc)))
     = [(''BOOKED'', None, None, None, None)] \<and>
   \<not> list_all slot_invariant
       (bookings (snd (updateBooking [] admin ''t1'' (empty_update\<lparr>ub_status := Str ''BOOKED''\<rparr>)
                         store_tbc))) \<and>
   status_code (fst (allocateStudioNumber store_tbc ''t1'')) = 200 \<and>
   map (\<lambda>b. (status b, sessionDate b, sessionTime b, specialRequestDate b, specialRequestTime b))
     (bookings (snd (allocateStudioNumber store_tbc ''t1'')))
     = [(''CONFIRMED'', None, None, None, None)] \<and>
   \<not> list_all slot_invariant (bookings (snd (allocateStudioNumber store_tbc ''t1'')))"
  by code_simp

subsection \<open>The stored phone number\<close>

lemma booking_findUnique_append_fresh:
  assumes "newId \<notin> set (map booking_id (bookings st))" and "booking_id b = newId"
  shows "booking_findUnique (st\<lparr>bookings := bookings st @ [b]\<rparr>) newId = Some b"
proof -
  have "find (\<lambda>x. booking_id x = newId) (bs @ [b]) = Some b"
    if "newId \<notin> set (map booking_id bs)" for bs
    using that assms(2) by (induction bs) auto
  then show ?thesis using assms(1) by (simp add: booking_findUnique_def)
qed

lemma createBooking_accepts:
  assumes "errors = []" and "length (strip_non_digits (cb_phoneNumber body)) = 11"
    and "\<not> field_truthy (cb_emergencyPhoneNumber body) \<or>
         length (strip_non_digits (the (field_value (cb_emergencyPhoneNumber body)))) = 11"
    and "bookingStatus (cb_status body) = ''TBC'' \<or> \<not> slot_missing body"
  shows "\<exists>b. createBooking errors user body newId st =
           (successResponse b ''Booking created successfully'' 201,
            st\<lparr>bookings := bookings st @ [b]\<rparr>) \<and>
           booking_id b = newId \<and> salesPersonId b = req_user_id user \<and>
           phoneNumber b = strip_non_digits (cb_phoneNumber body)"
  using assms by (auto simp: createBooking_def createBooking_with_def Let_def)

lemma updateData_phone:
  assumes "\<not> field_truthy (ub_phoneNumber body) \<or>
           length (strip_non_digits (the (field_value (ub_phoneNumber body)))) = 11"
    and "eleven_digits (phoneNumber b)"
  shows "eleven_digits (phoneNumber (updateData body b))"
  using assms
  by (auto simp: updateData_def set_if_truthy_def eleven_digits_def digits_strip)

lemma phones_create:
  assumes "list_all (\<lambda>b. eleven_digits (phoneNumber b)) (bookings st)"
  shows "list_all (\<lambda>b. eleven_digits (phoneNumber b))
           (bookings (snd (createBooking errors user body newId st)))"
proof -
  obtain resp st' where r: "createBooking_with slot_missing errors user body newId st = (resp, st')"
    by (cases "createBooking_with slot_missing errors user body newId st")
  from createBooking_with_cases [OF r] show ?thesis
    using assms r by (auto simp: createBooking_def eleven_digits_def digits_strip)
qed

lemma phones_update:
  assumes "list_all (\<lambda>b. eleven_digits (phoneNumber b)) (bookings st)"
  shows "list_all (\<lambda>b. eleven_digits (phoneNumber b))
           (bookings (snd (updateBooking errors user i body st)))"
proof (cases "status_code (fst (updateBooking errors user i body st)) = 200")
  case True
  then have ok: "\<not> field_truthy (ub_phoneNumber body) \<or>
                 length (strip_non_digits (the (field_value (ub_phoneNumber body)))) = 11"
    and st': "snd (updateBooking errors user i body st) = booking_update st i (updateData body)"
    by (auto simp: updateBooking_def Let_def split: if_splits option.splits)
  show ?thesis
    unfolding st' using assms updateData_phone [OF ok]
    by (auto simp: booking_update_def list_all_iff)
next
  case False
  then have "snd (updateBooking errors user i body st) = st"
    by (auto simp: updateBooking_def Let_def split: if_splits option.splits)
  then show ?thesis using assms by simp
qed

lemma phones_allocate:
  assumes "list_all (\<lambda>b. eleven_digits (phoneNumber b)) (bookings st)"
  shows "list_all (\<lambda>b. eleven_digits (phoneNumber b))
           (bookings (snd (allocateStudioNumber st i)))"
  using assms
  by (auto simp: allocateStudioNumber_def allocate_with_def Let_def booking_update_def
        list_all_iff split: option.splits)

lemma phones_delete:
  assumes "list_all (\<lambda>b. eleven_digits (phoneNumber b)) (bookings st)"
  shows "list_all (\<lambda>b. eleven_digits (phoneNumber b)) (bookings (snd (deleteBooking user i st)))"
  using assms by (auto simp: deleteBooking_def list_all_iff split: option.splits)

text \<open>
  C9. A phone number that does not reduce to exactly 11 digits is answered 400 and nothing
  is stored. A create request whose phone number reduces to 11 digits and which passes the
  other checks of the handler (no validation error, an emergency number that is absent or
  has 11 digits, a slot unless the status is TBC) is stored with exactly those 11 digits as
  \<open>phoneNumber\<close>, and its creator reads the same digits back by \<open>getBookingById\<close>. Creating,
  updating, allocating and deleting keep every stored phone number at exactly 11 digits.
\<close>

theorem phone_stored_as_digits:
  "(length (strip_non_digits (cb_phoneNumber body)) \<noteq> 11 \<longrightarrow>
      status_code (fst (createBooking errors user body newId st)) = 400 \<and>
      snd (createBooking errors user body newId st) = st) \<and>
   (length (strip_non_digits (cb_phoneNumber body)) = 11 \<and> errors = [] \<and>
    (\<not> field_truthy (cb_emergencyPhoneNumber body) \<or>
     length (strip_non_digits (the (field_value (cb_emergencyPhoneNumber body)))) = 11) \<and>
    (bookingStatus (cb_status body) = ''TBC'' \<or> \<not> slot_missing body) \<and>
    truthy (req_user_role user) \<and> newId \<notin> set (map booking_id (bookings st)) \<longrightarrow>
      (\<exists>b row. createBooking errors user body newId st =
                 (successResponse b ''Booking created successfully'' 201,
                  st\<lparr>bookings := bookings st @ [b]\<rparr>) \<and>
               phoneNumber b = strip_non_digits (cb_phoneNumber body) \<and>
               eleven_digits (phoneNumber b) \<and>
               getBookingById (st\<lparr>bookings := bookings st @ [b]\<rparr>) (Some user) newId =
                 successResponse row ''Booking retrieved successfully'' 200 \<and>
               phoneNumber (fst row) = strip_non_digits (cb_phoneNumber body))) \<and>
   (list_all (\<lambda>b. eleven_digits (phoneNumber b)) (bookings st) \<longrightarrow>
      list_all (\<lambda>b. eleven_digits (phoneNumber b))
        (bookings (snd (createBooking errors user body newId st))) \<and>
      list_all (\<lambda>b. eleven_digits (phoneNumber b))
        (bookings (snd (updateBooking errors' user' i body' st))) \<and>
      list_all (\<lambda>b. eleven_digits (phoneNumber b))
        (bookings (snd (allocateStudioNumber st i))) \<and>
      list_all (\<lambda>b. eleven_digits (phoneNumber b))
        (bookings (snd (deleteBooking user' i st))))"
proof (intro conjI impI)
  assume n: "length (strip_non_digits (cb_phoneNumber body)) \<noteq> 11"
  then show "status_code (fst (createBooking errors user body newId st)) = 400"
    by (simp add: createBooking_def createBooking_with_def Let_def)
  show "snd (createBooking errors user body newId st) = st"
    using n by (simp add: createBooking_def createBooking_with_def Let_def)
next
  assume h: "length (strip_non_digits (cb_phoneNumber body)) = 11 \<and> errors = [] \<and>
    (\<not> field_truthy (cb_emergencyPhoneNumber body) \<or>
     length (strip_non_digits (the (field_value (cb_emergencyPhoneNumber body)))) = 11) \<and>
    (bookingStatus (cb_status body) = ''TBC'' \<or> \<not> slot_missing body) \<and>
    truthy (req_user_role user) \<and> newId \<notin> set (map booking_id (bookings st))"
  then obtain b where b: "createBooking errors user body newId st =
           (successResponse b ''Booking created successfully'' 201,
            st\<lparr>bookings := bookings st @ [b]\<rparr>)"
    "booking_id b = newId" "salesPersonId b = req_user_id user"
    "phoneNumber b = strip_non_digits (cb_phoneNumber body)"
    using createBooking_accepts [of errors body user newId st] by blast
  have f: "booking_findUnique (st\<lparr>bookings := bookings st @ [b]\<rparr>) newId = Some b"
    using booking_findUnique_append_fresh [OF _ b(2)] h by simp
  have g: "getBookingById (st\<lparr>bookings := bookings st @ [b]\<rparr>) (Some user) newId =
             successResponse (enrich (st\<lparr>bookings := bookings st @ [b]\<rparr>) b)
               ''Booking retrieved successfully'' 200"
    using f h b(3) by (simp add: getBookingById_def)
  have e: "eleven_digits (phoneNumber b)"
    using b(4) h by (simp add: eleven_digits_def digits_strip)
  show "\<exists>b row. createBooking errors user body newId st =
                 (successResponse b ''Booking created successfully'' 201,
                  st\<lparr>bookings := bookings st @ [b]\<rparr>) \<and>
               phoneNumber b = strip_non_digits (cb_phoneNumber body) \<and>
               eleven_digits (phoneNumber b) \<and>
               getBookingById (st\<lparr>bookings := bookings st @ [b]\<rparr>) (Some user) newId =
                 successResponse row ''Booking retrieved successfully'' 200 \<and>
               phoneNumber (fst row) = strip_non_digits (cb_phoneNumber body)"
    using b(1,4) e g by (intro exI [of _ b] exI [of _ "enrich (st\<lparr>bookings := bookings st @ [b]\<rparr>) b"])
      (simp add: enrich_def)
next
  assume a: "list_all (\<lambda>b. eleven_digits (phoneNumber b)) (bookings st)"
  show "list_all (\<lambda>b. eleven_digits (phoneNumber b))
          (bookings (snd (createBooking errors user body newId st)))"
    by (rule phones_create [OF a])
  show "list_all (\<lambda>b. eleven_digits (phoneNumber b))
          (bookings (snd (updateBooking errors' user' i body' st)))"
    by (rule phones_update [OF a])
  show "list_all (\<lambda>b. eleven_digits (phoneNumber b)) (bookings (snd (allocateStudioNumber st i)))"
    by (rule phones_allocate [OF a])
  show "list_all (\<lambda>b. eleven_digits (phoneNumber b)) (bookings (snd (deleteBooking user' i st)))"
    by (rule phones_delete [OF a])
qed


text \<open>
  The input \<open>0712-345 6789\<close> is stored and read back as \<open>07123456789\<close>; the input
  \<open>0712-345\<close> is answered 400.
\<close>

theorem phone_stored_as_digits_witness:
  "strip_non_digits (cb_phoneNumber create_request) = ''07123456789'' \<and>
   ''n1'' \<notin> set (map booking_id (bookings seller_one_store)) \<and>
   createBooking [] seller create_request ''n1'' seller_one_store =
     (successResponse created_booking ''Booking created successfully'' 201,
      seller_one_store\<lparr>bookings := bookings seller_one_store @ [created_booking]\<rparr>) \<and>
   phoneNumber created_booking = ''07123456789'' \<and>
   map_option (phoneNumber \<circ> fst)
     (response_data
        (getBookingById (seller_one_store\<lparr>bookings := bookings seller_one_store @ [created_booking]\<rparr>)
           (Some seller) ''n1'')) = Some ''07123456789'' \<and>
   status_code
     (fst (createBooking [] seller (create_request\<lparr>cb_phoneNumber := ''0712-345''\<rparr>) ''n1''
             seller_one_store)) = 400 \<and>
   snd (createBooking [] seller (create_request\<lparr>cb_phoneNumber := ''0712-345''\<rparr>) ''n1''
          seller_one_store) = seller_one_store \<and>
   list_all (\<lambda>b. eleven_digits (phoneNumber b)) (bookings seller_one_store) \<and>
   list_all (\<lambda>b. eleven_digits (phoneNumber b))
     (bookings (snd (updateBooking [] seller ''s1''
                       (empty_update\<lparr>ub_phoneNumber := Str ''(0799) 000-1111''\<rparr>)
                       seller_one_store)))"
proof -
  have d: "strip_non_digits (cb_phoneNumber create_request) = ''07123456789''" by code_simp
  have fresh: "''n1'' \<notin> set (map booking_id (bookings seller_one_store))" by code_simp
  have ok: "length (strip_non_digits (cb_phoneNumber create_request)) = 11 \<and> [] = ([]::string list) \<and>
    (\<not> field_truthy (cb_emergencyPhoneNumber create_request) \<or>
     length (strip_non_digits (the (field_value (cb_emergencyPhoneNumber create_request)))) = 11) \<and>
    (bookingStatus (cb_status create_request) = ''TBC'' \<or> \<not> slot_missing create_request) \<and>
    truthy (req_user_role seller) \<and> ''n1'' \<notin> set (map booking_id (bookings seller_one_store))"
    by code_simp
  have bad: "length (strip_non_digits (cb_phoneNumber (create_request\<lparr>cb_phoneNumber := ''0712-345''\<rparr>)))
             \<noteq> 11" by code_simp
  have inv: "list_all (\<lambda>b. eleven_digits (phoneNumber b)) (bookings seller_one_store)"
    by code_simp
  have cr: "fst (createBooking [] seller create_request ''n1'' seller_one_store)
              = successResponse created_booking ''Booking created successfully'' 201"
    by code_simp
  note t1 = phone_stored_as_digits
    [where body = create_request and errors = "[]" and user = seller and newId = "''n1''"
       and st = seller_one_store and errors' = "[]" and user' = seller and i = "''s1''"
       and body' = "empty_update\<lparr>ub_phoneNumber := Str ''(0799) 000-1111''\<rparr>"]
  note t2 = phone_stored_as_digits
    [where body = "create_request\<lparr>cb_phoneNumber := ''0712-345''\<rparr>" and errors = "[]"
       and user = seller and newId = "''n1''" and st = seller_one_store]
  from t1 ok obtain b row where
    b: "createBooking [] seller create_request ''n1'' seller_one_store =
          (successResponse b ''Booking created successfully'' 201,
           seller_one_store\<lparr>bookings := bookings seller_one_store @ [b]\<rparr>)"
    and p: "phoneNumber b = strip_non_digits (cb_phoneNumber create_request)"
    and g: "getBookingById (seller_one_store\<lparr>bookings := bookings seller_one_store @ [b]\<rparr>)
              (Some seller) ''n1'' = successResponse row ''Booking retrieved successfully'' 200"
    and rp: "phoneNumber (fst row) = strip_non_digits (cb_phoneNumber create_request)"
    by blast
  have bb: "b = created_booking" using b cr by simp
  have "status_code
     (fst (createBooking [] seller (create_request\<lparr>cb_phoneNumber := ''0712-345''\<rparr>) ''n1''
             seller_one_store)) = 400"
    and "snd (createBooking [] seller (create_request\<lparr>cb_phoneNumber := ''0712-345''\<rparr>) ''n1''
          seller_one_store) = seller_one_store"
    using t2 bad by simp_all
  moreover have "list_all (\<lambda>b. eleven_digits (phoneNumber b))
     (bookings (snd (updateBooking [] seller ''s1''
                       (empty_update\<lparr>ub_phoneNumber := Str ''(0799) 000-1111''\<rparr>)
                       seller_one_store)))"
    using t1 inv by simp
  ultimately show ?thesis
    using d fresh inv b p g rp unfolding bb by simp
qed

subsection \<open>Invariants of the store under the handlers\<close>

text \<open>
  Every number the allocator decides to write is positive, and no other booking of the
  location holds it; so a store whose studio numbers are positive stays so, and in a run
  over one store the update never meets a number already taken.
\<close>

lemma le_last_sorted:
  assumes "sorted xs" and "x \<in> set xs"
  shows "x \<le> last xs"
proof -
  from assms(2) obtain k where k: "k < length xs" "xs ! k = x"
    by (auto simp: in_set_conv_nth)
  then have "xs \<noteq> []" by auto
  then have "last xs = xs ! (length xs - 1)" by (rule last_conv_nth)
  moreover have "xs ! k \<le> xs ! (length xs - 1)"
    using assms(1) k(1) by (intro sorted_nth_mono) simp_all
  ultimately show ?thesis using k(2) by simp
qed

lemma allocated_number_positive:
  assumes "final (allocation_of st loc i) = Some n"
  shows "0 < n"
proof (cases "conflict (allocation_of st loc i)")
  case False
  then have "n = gap_scan (bookingsWithStudioNumbers st loc)"
    using assms by (simp add: allocation_of_def Let_def)
  then show ?thesis
    using gap_loop_positions [of 0 "bookingsWithStudioNumbers st loc"]
    by (simp add: gap_scan_loop)
next
  case True
  let ?xs = "bookingsWithStudioNumbers st loc"
  from True have "existingStudioNumber st loc (gap_scan ?xs) i \<noteq> None"
    by (simp add: allocation_of_def Let_def)
  from existingStudioNumber_in_numbers [OF this] have m: "gap_scan ?xs \<in> set ?xs" .
  then have ne: "?xs \<noteq> []" by auto
  have "gap_scan ?xs \<le> last (sort ?xs)"
    using m by (intro le_last_sorted) simp_all
  moreover have "0 < gap_scan ?xs"
    using gap_loop_positions [of 0 ?xs] by (simp add: gap_scan_loop)
  moreover have "n = last (sort ?xs) + 1"
    using assms True ne by (simp add: allocation_of_def Let_def last_plus_one_def)
  ultimately show ?thesis by linarith
qed

lemma allocated_number_free:
  assumes "final (allocation_of st loc i) = Some n"
  shows "existingStudioNumber st loc n i = None"
proof (cases "conflict (allocation_of st loc i)")
  case False
  then show ?thesis using assms by (simp add: allocation_of_def Let_def)
next
  case True
  let ?xs = "bookingsWithStudioNumbers st loc"
  from True have "existingStudioNumber st loc (gap_scan ?xs) i \<noteq> None"
    by (simp add: allocation_of_def Let_def)
  from existingStudioNumber_in_numbers [OF this] have ne: "?xs \<noteq> []" by auto
  then have n: "n = last (sort ?xs) + 1"
    using assms True by (simp add: allocation_of_def Let_def last_plus_one_def)
  have "n \<notin> set ?xs"
  proof
    assume "n \<in> set ?xs"
    then have "n \<le> last (sort ?xs)" by (intro le_last_sorted) simp_all
    then show False using n by simp
  qed
  then show ?thesis using existingStudioNumber_in_numbers by blast
qed

text \<open>The writers never store an empty string in a date or a time column.\<close>

lemma set_if_defined_normal: "old \<noteq> Some [] \<Longrightarrow> set_if_defined f old \<noteq> Some []"
  by (simp add: set_if_defined_def or_null_normal)

lemma updateData_slots_normal: "slots_normal b \<Longrightarrow> slots_normal (updateData body b)"
  by (simp add: slots_normal_def updateData_def set_if_defined_normal)

lemma createBooking_slots_normal:
  assumes "list_all slots_normal (bookings st)"
  shows "list_all slots_normal (bookings (snd (createBooking errors user body newId st)))"
proof -
  obtain resp st' where r: "createBooking_with slot_missing errors user body newId st = (resp, st')"
    by (cases "createBooking_with slot_missing errors user body newId st")
  from createBooking_with_cases [OF r] show ?thesis
    using assms r by (auto simp: createBooking_def slots_normal_def or_null_normal)
qed

lemma updateBooking_slots_normal:
  assumes "list_all slots_normal (bookings st)"
  shows "list_all slots_normal (bookings (snd (updateBooking errors user i body st)))"
  using assms
  by (auto simp: updateBooking_def Let_def booking_update_def list_all_iff
        updateData_slots_normal split: option.splits)

lemma allocateStudioNumber_slots_normal:
  assumes "list_all slots_normal (bookings st)"
  shows "list_all slots_normal (bookings (snd (allocateStudioNumber st i)))"
  using assms
  by (auto simp: allocateStudioNumber_def allocate_with_def Let_def booking_update_def
        list_all_iff slots_normal_def split: option.splits)

text \<open>The identifiers stay unique: an update keeps the id of a row, a new row gets a
  fresh one.\<close>

lemma booking_update_unique_ids:
  assumes "unique_ids st" and "\<And>b. booking_id (f b) = booking_id b"
  shows "unique_ids (booking_update st i f)"
proof -
  have "booking_id \<circ> (\<lambda>b. if booking_id b = i then f b else b) = booking_id"
    by (auto simp: fun_eq_iff assms(2))
  then show ?thesis using assms(1) by (simp add: unique_ids_def booking_update_def)
qed

lemma createBooking_unique_ids:
  assumes "unique_ids st" and "newId \<notin> set (map booking_id (bookings st))"
  shows "unique_ids (snd (createBooking errors user body newId st))"
proof -
  obtain resp st' where r: "createBooking_with slot_missing errors user body newId st = (resp, st')"
    by (cases "createBooking_with slot_missing errors user body newId st")
  from createBooking_with_cases [OF r] show ?thesis
    using assms r by (auto simp: createBooking_def unique_ids_def)
qed

end
